theory Spec2Isabelle
  imports Main "HOL-Library.Word"
begin

unbundle bit_operations_syntax

section \<open>Bytes, slices and the Go built-ins the program uses\<close>

text \<open>
  A Go \<open>[]byte\<close> is a list of 8-bit words. A nil slice and an empty slice are both
  \<open>[]\<close>: the program only ever takes their length, copies them and compares them with
  \<open>bytes.Compare\<close>, none of which tells the two apart. A fixed array \<open>[n]byte\<close> is a
  list of length \<open>n\<close>.
\<close>

type_synonym byte = "8 word"

text \<open>The conversion \<open>[]byte(s)\<close> of a Go string: one byte per character.\<close>

definition bytes_of :: "string \<Rightarrow> byte list" where
  "bytes_of s = map of_char s"

text \<open>
  \<open>bytes.Compare(a, b)\<close>: lexicographic comparison, \<open>0\<close> if \<open>a == b\<close>, \<open>-1\<close> if
  \<open>a < b\<close>, \<open>+1\<close> if \<open>a > b\<close>.
\<close>

fun bytes_Compare :: "byte list \<Rightarrow> byte list \<Rightarrow> int" where
  "bytes_Compare [] [] = 0"
| "bytes_Compare [] (y # ys) = - 1"
| "bytes_Compare (x # xs) [] = 1"
| "bytes_Compare (x # xs) (y # ys) =
     (if x < y then - 1 else if y < x then 1 else bytes_Compare xs ys)"

text \<open>
  The built-in \<open>copy(dst, src)\<close>: it copies \<open>min(len(dst), len(src))\<close> elements to the
  front of \<open>dst\<close> and leaves the rest of \<open>dst\<close> as it was. It never panics.
\<close>

definition copy :: "'a list \<Rightarrow> 'a list \<Rightarrow> 'a list" where
  "copy dst src = (let n = min (length dst) (length src) in take n src @ drop n dst)"

text \<open>
  \<open>var signature [64]byte; copy(signature[:], src)\<close>: a zeroed 64-byte array
  overwritten from its front.
\<close>

definition signature_of :: "byte list \<Rightarrow> byte list" where
  "signature_of src = copy (replicate 64 0) src"

text \<open>
  Run-time panics of the program: a nil pointer dereference and an index out of range.
  A computation that can panic returns \<open>Inl\<close> of the panic or \<open>Inr\<close> of its value.
\<close>

datatype panic = NilDereference | IndexOutOfRange

text \<open>The index expression \<open>xs[i]\<close>, which panics out of range.\<close>

definition index :: "'a list \<Rightarrow> nat \<Rightarrow> panic + 'a" where
  "index xs i = (if i < length xs then Inr (xs ! i) else Inl IndexOutOfRange)"

section \<open>SHA-256 (\<open>crypto/sha256\<close>), after FIPS 180-4\<close>

type_synonym word32 = "32 word"

definition rotr :: "nat \<Rightarrow> word32 \<Rightarrow> word32" where
  "rotr n x = (drop_bit n x) OR (push_bit (32 - n) x)"

definition Ch :: "word32 \<Rightarrow> word32 \<Rightarrow> word32 \<Rightarrow> word32" where
  "Ch x y z = (x AND y) XOR (NOT x AND z)"

definition Maj :: "word32 \<Rightarrow> word32 \<Rightarrow> word32 \<Rightarrow> word32" where
  "Maj x y z = (x AND y) XOR (x AND z) XOR (y AND z)"

definition Sigma0 :: "word32 \<Rightarrow> word32" where
  "Sigma0 x = rotr 2 x XOR rotr 13 x XOR rotr 22 x"

definition Sigma1 :: "word32 \<Rightarrow> word32" where
  "Sigma1 x = rotr 6 x XOR rotr 11 x XOR rotr 25 x"

definition sigma0 :: "word32 \<Rightarrow> word32" where
  "sigma0 x = rotr 7 x XOR rotr 18 x XOR drop_bit 3 x"

definition sigma1 :: "word32 \<Rightarrow> word32" where
  "sigma1 x = rotr 17 x XOR rotr 19 x XOR drop_bit 10 x"

text \<open>
  The constants of the standard are defined, not listed: the round constants are the first
  32 bits of the fractional parts of the cube roots of the first 64 primes (2 to 311), the
  initial hash value those of the square roots of the first 8 primes (2 to 19).
  \<open>root_bits k n b 0\<close> is the integer \<open>k\<close>-th root of \<open>n\<close>, found bit by bit below
  \<open>2 ^ b\<close>.
\<close>

definition primes_upto :: "nat \<Rightarrow> nat list" where
  "primes_upto n = filter (\<lambda>p. list_all (\<lambda>d. p mod d \<noteq> 0) [2..<p]) [2..<Suc n]"

fun root_bits :: "nat \<Rightarrow> int \<Rightarrow> nat \<Rightarrow> int \<Rightarrow> int" where
  "root_bits k n 0 r = r"
| "root_bits k n (Suc b) r = root_bits k n b (if (r + 2 ^ b) ^ k \<le> n then r + 2 ^ b else r)"

definition frac_root32 :: "nat \<Rightarrow> nat \<Rightarrow> word32" where
  "frac_root32 k p = of_int (root_bits k (int p * 2 ^ (32 * k)) 40 0)"

definition sha256_K :: "word32 list" where
  "sha256_K = map (frac_root32 3) (primes_upto 311)"

definition sha256_init :: "word32 list" where
  "sha256_init = map (frac_root32 2) (primes_upto 19)"

text \<open>Big-endian bytes of a 32-bit word and of the 64-bit message length.\<close>

definition be32 :: "word32 \<Rightarrow> byte list" where
  "be32 w = [ucast (drop_bit 24 w), ucast (drop_bit 16 w), ucast (drop_bit 8 w), ucast w]"

definition be64 :: "64 word \<Rightarrow> byte list" where
  "be64 w = map (\<lambda>i. ucast (drop_bit (8 * (7 - i)) w)) [0..<8]"

definition word_of_be :: "byte list \<Rightarrow> word32" where
  "word_of_be bs = foldl (\<lambda>acc b. push_bit 8 acc OR ucast b) 0 bs"

text \<open>
  Padding: one \<open>0x80\<close> byte, zero bytes up to 56 modulo 64, then the length of the
  message in bits as a 64-bit big-endian number.
\<close>

definition sha256_pad :: "byte list \<Rightarrow> byte list" where
  "sha256_pad m =
     m @ [0x80] @ replicate ((119 - length m mod 64) mod 64) 0 @ be64 (of_nat (8 * length m))"

definition sha256_blocks :: "byte list \<Rightarrow> byte list list" where
  "sha256_blocks p = map (\<lambda>i. take 64 (drop (64 * i) p)) [0..<length p div 64]"

text \<open>The message schedule: sixteen words of the block, extended to sixty-four.\<close>

definition sha256_extend :: "word32 list \<Rightarrow> word32 list" where
  "sha256_extend w =
     (let n = length w
      in w @ [sigma1 (w ! (n - 2)) + w ! (n - 7) + sigma0 (w ! (n - 15)) + w ! (n - 16)])"

definition sha256_schedule :: "byte list \<Rightarrow> word32 list" where
  "sha256_schedule block =
     ((sha256_extend ^^ 48) (map (\<lambda>i. word_of_be (take 4 (drop (4 * i) block))) [0..<16]))"

text \<open>One round on the eight working variables \<open>a, \<dots>, h\<close>, given \<open>K\<^sub>t + W\<^sub>t\<close>.\<close>

fun sha256_round :: "word32 list \<Rightarrow> word32 \<Rightarrow> word32 list" where
  "sha256_round [a, b, c, d, e, f, g, h] kw =
     (let t1 = h + Sigma1 e + Ch e f g + kw;
          t2 = Sigma0 a + Maj a b c
      in [t1 + t2, a, b, c, d + t1, e, f, g])"
| "sha256_round v kw = v"

definition sha256_compress :: "word32 list \<Rightarrow> byte list \<Rightarrow> word32 list" where
  "sha256_compress hs block =
     map2 (+) hs (foldl sha256_round hs (map2 (+) sha256_K (sha256_schedule block)))"

text \<open>\<open>sha := sha256.New(); sha.Write(file); sha.Sum(nil)\<close>.\<close>

definition sha256_Sum :: "byte list \<Rightarrow> byte list" where
  "sha256_Sum m = concat (map be32 (foldl sha256_compress sha256_init (sha256_blocks (sha256_pad m))))"

section \<open>Data of the ledger client (package \<open>factom\<close>) and of the program\<close>

text \<open>A Go \<open>error\<close> value, as returned by the ledger client and by the file system.\<close>

datatype error = Error string

record Entry =
  ChainID :: string
  ExtIDs :: "byte list list"
  Content :: "byte list"

record Chain =
  chain_ChainID :: string
  FirstEntry :: Entry

text \<open>
  \<open>factom.ECAddress\<close>: \<open>Pub *[32]byte\<close> and \<open>Sec *[64]byte\<close>, both allocated by every
  constructor of the package. \<open>PubBytes()\<close> is \<open>Pub[:]\<close> and \<open>PubFixed()\<close> is \<open>Pub\<close>.
\<close>

record ECAddress =
  Pub :: "byte list"
  Sec :: "byte list"

definition PubBytes :: "ECAddress \<Rightarrow> byte list" where
  "PubBytes a = Pub a"

definition PubFixed :: "ECAddress \<Rightarrow> byte list" where
  "PubFixed a = Pub a"

text \<open>
  The program's own types. The pointers \<open>ecAddress *factom.ECAddress\<close> and
  \<open>owner *Person\<close> may be nil, hence the options.
\<close>

datatype Ticket = Ticket

datatype Person =
  Person (ecAddress: "ECAddress option") (person_chainID: string)
         (vehicles: "Vehicle list") (tickets: "Ticket list")
and Vehicle =
  Vehicle (vin: string) (vehicle_chainID: string)
          (owner: "Person option") (previousOwners: "byte list list")

section \<open>The outside world: ledger, file system, signatures\<close>

text \<open>
  Every call that leaves the program is written to a trace, in the order the program makes
  it. The answers come from an environment \<open>env\<close>: each answer may depend on everything
  that was called before, so the environment stands for any ledger and any file system,
  including ones that fail or change between calls. The signature scheme
  (\<open>ed.Sign\<close>, \<open>ed.Verify\<close>) and \<open>factom.NewChain\<close> are pure functions of their arguments.
\<close>

datatype call =
    Call_ChainExists string
  | Call_CommitChain Chain ECAddress
  | Call_RevealChain Chain
  | Call_CommitEntry Entry ECAddress
  | Call_RevealEntry Entry
  | Call_GetAllChainEntries string
  | Call_GetEntry string
  | Call_ReadFile string

type_synonym trace = "call list"

record env =
  factom_NewChain :: "Entry \<Rightarrow> Chain"
  factom_ChainExists :: "trace \<Rightarrow> string \<Rightarrow> bool"
  factom_CommitChain :: "trace \<Rightarrow> Chain \<Rightarrow> ECAddress \<Rightarrow> error + string"
  factom_RevealChain :: "trace \<Rightarrow> Chain \<Rightarrow> error + string"
  factom_CommitEntry :: "trace \<Rightarrow> Entry \<Rightarrow> ECAddress \<Rightarrow> error + string"
  factom_RevealEntry :: "trace \<Rightarrow> Entry \<Rightarrow> error + string"
  factom_GetAllChainEntries :: "trace \<Rightarrow> string \<Rightarrow> error + Entry list"
  factom_GetEntry :: "trace \<Rightarrow> string \<Rightarrow> error + Entry"
  ioutil_ReadFile :: "trace \<Rightarrow> string \<Rightarrow> error + byte list"
  ed_Sign :: "byte list \<Rightarrow> byte list \<Rightarrow> byte list"
  ed_Verify :: "byte list \<Rightarrow> byte list \<Rightarrow> byte list \<Rightarrow> bool"

definition ChainExists :: "env \<Rightarrow> string \<Rightarrow> trace \<Rightarrow> bool \<times> trace" where
  "ChainExists E c tr = (factom_ChainExists E tr c, tr @ [Call_ChainExists c])"

definition CommitChain :: "env \<Rightarrow> Chain \<Rightarrow> ECAddress \<Rightarrow> trace \<Rightarrow> (error + string) \<times> trace" where
  "CommitChain E c ec tr = (factom_CommitChain E tr c ec, tr @ [Call_CommitChain c ec])"

definition RevealChain :: "env \<Rightarrow> Chain \<Rightarrow> trace \<Rightarrow> (error + string) \<times> trace" where
  "RevealChain E c tr = (factom_RevealChain E tr c, tr @ [Call_RevealChain c])"

definition CommitEntry :: "env \<Rightarrow> Entry \<Rightarrow> ECAddress \<Rightarrow> trace \<Rightarrow> (error + string) \<times> trace" where
  "CommitEntry E e ec tr = (factom_CommitEntry E tr e ec, tr @ [Call_CommitEntry e ec])"

definition RevealEntry :: "env \<Rightarrow> Entry \<Rightarrow> trace \<Rightarrow> (error + string) \<times> trace" where
  "RevealEntry E e tr = (factom_RevealEntry E tr e, tr @ [Call_RevealEntry e])"

definition GetAllChainEntries :: "env \<Rightarrow> string \<Rightarrow> trace \<Rightarrow> (error + Entry list) \<times> trace" where
  "GetAllChainEntries E c tr = (factom_GetAllChainEntries E tr c, tr @ [Call_GetAllChainEntries c])"

definition GetEntry :: "env \<Rightarrow> string \<Rightarrow> trace \<Rightarrow> (error + Entry) \<times> trace" where
  "GetEntry E h tr = (factom_GetEntry E tr h, tr @ [Call_GetEntry h])"

definition ReadFile :: "env \<Rightarrow> string \<Rightarrow> trace \<Rightarrow> (error + byte list) \<times> trace" where
  "ReadFile E path tr = (ioutil_ReadFile E tr path, tr @ [Call_ReadFile path])"

section \<open>The program\<close>

text \<open>
  A Go function returning \<open>(T, error)\<close> returns a pair whose second component is
  \<open>None\<close> for a nil error; one that can panic returns \<open>panic + (T \<times> error option)\<close>.
  Functions that call out take the trace and return the extended one. A method takes
  its receiver as a value: the receiver is not nil, and neither is the address that pays
  for a registration, which goes to the ledger client as it is. Output written with
  \<open>fmt.Println\<close> is left out.
\<close>

subsection \<open>Chain identifiers and constructors\<close>

text \<open>\<open>constructChainID\<close>: the loop appends each name segment to the ExtIDs of a fresh entry.\<close>

definition constructChainID :: "env \<Rightarrow> byte list list \<Rightarrow> string" where
  "constructChainID E chainName =
     (let e = fold (\<lambda>nameSegment e. e\<lparr>ExtIDs := ExtIDs e @ [nameSegment]\<rparr>) chainName
                \<lparr>ChainID = [], ExtIDs = [], Content = []\<rparr>;
          chain = factom_NewChain E e
      in chain_ChainID chain)"

text \<open>\<open>NewPerson\<close> calls \<open>ecAddress.PubBytes()\<close>, which dereferences the pointer.\<close>

definition NewPerson :: "env \<Rightarrow> ECAddress option \<Rightarrow> panic + Person" where
  "NewPerson E ec =
     (case ec of
        None \<Rightarrow> Inl NilDereference
      | Some a \<Rightarrow>
          (let chainName = [bytes_of ''Driver Identity Chain'', PubBytes a]
           in Inr (Person (Some a) (constructChainID E chainName) [] [])))"

text \<open>\<open>NewVehicle\<close> returns nil (\<open>None\<close>) unless the VIN has 17 bytes.\<close>

definition NewVehicle :: "env \<Rightarrow> string \<Rightarrow> Vehicle option" where
  "NewVehicle E v =
     (if length v \<noteq> 17 then None
      else (let chainName = [bytes_of ''Vehicle Identity Chain'', bytes_of v]
            in Some (Vehicle v (constructChainID E chainName) None [])))"

subsection \<open>Registration\<close>

definition Person_IsRegistered :: "env \<Rightarrow> Person \<Rightarrow> trace \<Rightarrow> bool \<times> trace" where
  "Person_IsRegistered E person tr = ChainExists E (person_chainID person) tr"

definition Person_Register ::
    "env \<Rightarrow> Person \<Rightarrow> ECAddress \<Rightarrow> trace \<Rightarrow> (panic + string \<times> error option) \<times> trace" where
  "Person_Register E person ec tr =
     (case Person_IsRegistered E person tr of
        (True, tr1) \<Rightarrow> (Inr ([], None), tr1)
      | (False, tr1) \<Rightarrow>
          (case ecAddress person of
             None \<Rightarrow> (Inl NilDereference, tr1)
           | Some a \<Rightarrow>
               (let chainEntry = \<lparr>ChainID = [],
                                  ExtIDs = [bytes_of ''Driver Identity Chain'', PubBytes a],
                                  Content = []\<rparr>;
                    chain = factom_NewChain E chainEntry
                in case CommitChain E chain ec tr1 of
                     (Inl err, tr2) \<Rightarrow> (Inr ([], Some err), tr2)
                   | (Inr txID, tr2) \<Rightarrow>
                       (case RevealChain E chain tr2 of
                          (Inl err, tr3) \<Rightarrow> (Inr ([], Some err), tr3)
                        | (Inr _, tr3) \<Rightarrow> (Inr (txID, None), tr3)))))"

definition Vehicle_IsRegistered :: "env \<Rightarrow> Vehicle \<Rightarrow> trace \<Rightarrow> bool \<times> trace" where
  "Vehicle_IsRegistered E vehicle tr = ChainExists E (vehicle_chainID vehicle) tr"

definition Vehicle_Register ::
    "env \<Rightarrow> Vehicle \<Rightarrow> ECAddress \<Rightarrow> trace \<Rightarrow> (panic + string \<times> error option) \<times> trace" where
  "Vehicle_Register E vehicle ec tr =
     (case Vehicle_IsRegistered E vehicle tr of
        (True, tr1) \<Rightarrow> (Inr ([], None), tr1)
      | (False, tr1) \<Rightarrow>
          (let chainEntry = \<lparr>ChainID = [],
                             ExtIDs = [bytes_of ''Vehicle Identity Chain'', bytes_of (vin vehicle)],
                             Content = []\<rparr>;
               chain = factom_NewChain E chainEntry
           in case CommitChain E chain ec tr1 of
                (Inl err, tr2) \<Rightarrow> (Inr ([], Some err), tr2)
              | (Inr txID, tr2) \<Rightarrow>
                  (case RevealChain E chain tr2 of
                     (Inl err, tr3) \<Rightarrow> (Inr ([], Some err), tr3)
                   | (Inr _, tr3) \<Rightarrow> (Inr (txID, None), tr3))))"

subsection \<open>Fingerprints, anchoring, verification\<close>

text \<open>\<open>getFileHash\<close>: \<open>(nil, err)\<close> when the file cannot be read, else the SHA-256 digest.\<close>

definition getFileHash :: "env \<Rightarrow> string \<Rightarrow> trace \<Rightarrow> (byte list \<times> error option) \<times> trace" where
  "getFileHash E path tr =
     (case ReadFile E path tr of
        (Inl err, tr1) \<Rightarrow> (([], Some err), tr1)
      | (Inr file, tr1) \<Rightarrow> ((sha256_Sum file, None), tr1))"

text \<open>
  The expression \<open>vehicle.owner.ecAddress\<close> followed by a field access or a method call on
  it: it panics when \<open>owner\<close> or \<open>ecAddress\<close> is nil.
\<close>

definition owner_ecAddress :: "Vehicle \<Rightarrow> panic + ECAddress" where
  "owner_ecAddress vehicle =
     (case owner vehicle of
        None \<Rightarrow> Inl NilDereference
      | Some person \<Rightarrow>
          (case ecAddress person of None \<Rightarrow> Inl NilDereference | Some a \<Rightarrow> Inr a))"

definition secureHashOnChain ::
    "env \<Rightarrow> Vehicle \<Rightarrow> byte list \<Rightarrow> trace \<Rightarrow> (panic + string \<times> error option) \<times> trace" where
  "secureHashOnChain E vehicle hash tr =
     (case owner_ecAddress vehicle of
        Inl p \<Rightarrow> (Inl p, tr)
      | Inr a \<Rightarrow>
          (let signature = ed_Sign E (Sec a) hash;
               entry = \<lparr>ChainID = vehicle_chainID vehicle,
                        ExtIDs = [signature, PubBytes a],
                        Content = hash\<rparr>
           in case CommitEntry E entry a tr of
                (Inl err, tr1) \<Rightarrow> (Inr ([], Some err), tr1)
              | (Inr txID, tr1) \<Rightarrow>
                  (case RevealEntry E entry tr1 of
                     (Inl err, tr2) \<Rightarrow> (Inr ([], Some err), tr2)
                   | (Inr _, tr2) \<Rightarrow> (Inr (txID, None), tr2))))"

text \<open>The \<open>for _, entry := range entries\<close> loop of \<open>VerifyData\<close>.\<close>

fun VerifyData_loop :: "env \<Rightarrow> Vehicle \<Rightarrow> byte list \<Rightarrow> Entry list \<Rightarrow> panic + bool \<times> error option" where
  "VerifyData_loop E vehicle localHash [] = Inr (False, None)"
| "VerifyData_loop E vehicle localHash (entry # entries) =
     (if length (ExtIDs entry) \<noteq> 2 then VerifyData_loop E vehicle localHash entries
      else
        (case index (ExtIDs entry) 1 of
           Inl p \<Rightarrow> Inl p
         | Inr pubKey \<Rightarrow>
             (case owner_ecAddress vehicle of
                Inl p \<Rightarrow> Inl p
              | Inr a \<Rightarrow>
                  (if bytes_Compare pubKey (PubBytes a) \<noteq> 0
                   then VerifyData_loop E vehicle localHash entries
                   else
                     (case index (ExtIDs entry) 0 of
                        Inl p \<Rightarrow> Inl p
                      | Inr sig \<Rightarrow>
                          (let signature = signature_of sig
                           in if \<not> ed_Verify E (PubFixed a) (Content entry) signature
                              then VerifyData_loop E vehicle localHash entries
                              else if bytes_Compare localHash (Content entry) = 0
                              then Inr (True, None)
                              else VerifyData_loop E vehicle localHash entries))))))"

definition VerifyData ::
    "env \<Rightarrow> Vehicle \<Rightarrow> string \<Rightarrow> trace \<Rightarrow> (panic + bool \<times> error option) \<times> trace" where
  "VerifyData E vehicle filepath tr =
     (case GetAllChainEntries E (vehicle_chainID vehicle) tr of
        (Inl err, tr1) \<Rightarrow> (Inr (False, Some err), tr1)
      | (Inr entries, tr1) \<Rightarrow>
          (case getFileHash E filepath tr1 of
             ((_, Some err), tr2) \<Rightarrow> (Inr (False, Some err), tr2)
           | ((localHash, None), tr2) \<Rightarrow> (VerifyData_loop E vehicle localHash entries, tr2)))"

definition checkFileIntegrity ::
    "env \<Rightarrow> Vehicle \<Rightarrow> string \<Rightarrow> string \<Rightarrow> trace \<Rightarrow> (panic + bool \<times> error option) \<times> trace" where
  "checkFileIntegrity E vehicle filepath entryHash tr =
     (case getFileHash E filepath tr of
        ((_, Some err), tr1) \<Rightarrow> (Inr (False, Some err), tr1)
      | ((onDiskHash, None), tr1) \<Rightarrow>
          (case GetEntry E entryHash tr1 of
             (Inl err, tr2) \<Rightarrow> (Inr (False, Some err), tr2)
           | (Inr entry, tr2) \<Rightarrow>
               (let onChainHash = Content entry
                in case index (ExtIDs entry) 0 of
                     Inl p \<Rightarrow> (Inl p, tr2)
                   | Inr sig \<Rightarrow>
                (let signature = signature_of sig
                 in case owner_ecAddress vehicle of
                      Inl p \<Rightarrow> (Inl p, tr2)
                    | Inr a \<Rightarrow>
                 (let validSig = ed_Verify E (Pub a) onChainHash signature;
                      hashComparison = bytes_Compare onDiskHash onChainHash
                  in if \<not> validSig \<or> hashComparison \<noteq> 0 then (Inr (False, None), tr2)
                     else (Inr (True, None), tr2))))))"

section \<open>Notions used to state the properties\<close>

text \<open>
  A record of the history counts for the owner's address \<open>a\<close> and the local fingerprint
  when it has exactly two metadata fields, the second is the owner's public key, the
  first (as the 64-byte array the program builds from it) is a signature of the content
  under the owner's key, and the content is the fingerprint.
\<close>

definition entry_matches :: "env \<Rightarrow> ECAddress \<Rightarrow> byte list \<Rightarrow> Entry \<Rightarrow> bool" where
  "entry_matches E a localHash entry \<longleftrightarrow>
     length (ExtIDs entry) = 2 \<and>
     ExtIDs entry ! 1 = PubBytes a \<and>
     ed_Verify E (PubFixed a) (Content entry) (signature_of (ExtIDs entry ! 0)) \<and>
     Content entry = localHash"

text \<open>
  The chain that \<open>Register\<close> submits for a person with address \<open>a\<close> and for a vehicle
  with VIN \<open>v\<close>, and the record that \<open>secureHashOnChain\<close> submits for a fingerprint.
\<close>

definition Person_chain :: "env \<Rightarrow> ECAddress \<Rightarrow> Chain" where
  "Person_chain E a =
     factom_NewChain E
       \<lparr>ChainID = [], ExtIDs = [bytes_of ''Driver Identity Chain'', PubBytes a], Content = []\<rparr>"

definition Vehicle_chain :: "env \<Rightarrow> string \<Rightarrow> Chain" where
  "Vehicle_chain E v =
     factom_NewChain E
       \<lparr>ChainID = [], ExtIDs = [bytes_of ''Vehicle Identity Chain'', bytes_of v], Content = []\<rparr>"

definition anchor_entry :: "env \<Rightarrow> Vehicle \<Rightarrow> ECAddress \<Rightarrow> byte list \<Rightarrow> Entry" where
  "anchor_entry E vehicle a hash =
     \<lparr>ChainID = vehicle_chainID vehicle,
      ExtIDs = [ed_Sign E (Sec a) hash, PubBytes a],
      Content = hash\<rparr>"

text \<open>
  The law of the signature scheme for the key pair of \<open>a\<close> at the message \<open>m\<close>:
  \<open>ed.Sign\<close> returns a 64-byte array, and \<open>ed.Verify\<close> accepts it under the public key.
\<close>

definition signs_correctly :: "env \<Rightarrow> ECAddress \<Rightarrow> byte list \<Rightarrow> bool" where
  "signs_correctly E a m \<longleftrightarrow>
     length (ed_Sign E (Sec a) m) = 64 \<and> ed_Verify E (Pub a) m (ed_Sign E (Sec a) m)"

text \<open>The chain-creation calls in a trace.\<close>

fun chain_commits :: "trace \<Rightarrow> Chain list" where
  "chain_commits [] = []"
| "chain_commits (Call_CommitChain c ec # tr) = c # chain_commits tr"
| "chain_commits (other # tr) = chain_commits tr"

fun chain_reveals :: "trace \<Rightarrow> Chain list" where
  "chain_reveals [] = []"
| "chain_reveals (Call_RevealChain c # tr) = c # chain_reveals tr"
| "chain_reveals (other # tr) = chain_reveals tr"

fun entry_reveals :: "trace \<Rightarrow> Entry list" where
  "entry_reveals [] = []"
| "entry_reveals (Call_RevealEntry e # tr) = e # entry_reveals tr"
| "entry_reveals (other # tr) = entry_reveals tr"

text \<open>
  What the program relies on from the ledger for registration to be idempotent: a
  successful commit answers with a non-empty transaction ID, and a chain whose reveal
  succeeded exists from then on.
\<close>

definition ledger_contract :: "env \<Rightarrow> bool" where
  "ledger_contract E \<longleftrightarrow>
     (\<forall>tr c ec txID. factom_CommitChain E tr c ec = Inr txID \<longrightarrow> txID \<noteq> []) \<and>
     (\<forall>tr c txID later. factom_RevealChain E tr c = Inr txID \<longrightarrow>
        factom_ChainExists E (tr @ Call_RevealChain c # later) (chain_ChainID c))"

section \<open>A reference environment\<close>

text \<open>
  A small environment to run the program in: a ledger on which every submission succeeds
  and is visible at once (a chain exists once it was revealed, the history of a chain is
  the entries revealed for it, in order, and an entry is fetched by a hash of its
  fields), a file system given as a map, and a toy signature scheme whose public key is
  the second half of the secret key, as in the 64-byte private keys of the ed25519
  package.
\<close>

definition toy_Sign :: "byte list \<Rightarrow> byte list \<Rightarrow> byte list" where
  "toy_Sign sec m = signature_of (drop 32 sec @ m)"

definition toy_Verify :: "byte list \<Rightarrow> byte list \<Rightarrow> byte list \<Rightarrow> bool" where
  "toy_Verify pub m sig \<longleftrightarrow> sig = signature_of (pub @ m)"

definition sim_NewChain :: "Entry \<Rightarrow> Chain" where
  "sim_NewChain e =
     (let cid = concat (map (map (\<lambda>b. char_of (unat b))) (ExtIDs e))
      in \<lparr>chain_ChainID = cid, FirstEntry = e\<lparr>ChainID := cid\<rparr>\<rparr>)"

definition sim_entry_hash :: "Entry \<Rightarrow> string" where
  "sim_entry_hash e = map (\<lambda>b. char_of (unat b)) (concat (ExtIDs e) @ Content e)"

definition sim_env :: "(string \<rightharpoonup> byte list) \<Rightarrow> env" where
  "sim_env files =
     \<lparr>factom_NewChain = sim_NewChain,
      factom_ChainExists = (\<lambda>tr c. c \<in> set (map chain_ChainID (chain_reveals tr))),
      factom_CommitChain = (\<lambda>tr c ec. Inr ''commit-chain''),
      factom_RevealChain = (\<lambda>tr c. Inr ''reveal-chain''),
      factom_CommitEntry = (\<lambda>tr e ec. Inr ''commit-entry''),
      factom_RevealEntry = (\<lambda>tr e. Inr ''reveal-entry''),
      factom_GetAllChainEntries = (\<lambda>tr c. Inr (filter (\<lambda>e. ChainID e = c) (entry_reveals tr))),
      factom_GetEntry = (\<lambda>tr h. case filter (\<lambda>e. sim_entry_hash e = h) (entry_reveals tr) of
                                    [] \<Rightarrow> Inl (Error ''entry not found'')
                                  | e # es \<Rightarrow> Inr e),
      ioutil_ReadFile = (\<lambda>tr path. case files path of
                                      None \<Rightarrow> Inl (Error ''no such file'')
                                    | Some file \<Rightarrow> Inr file),
      ed_Sign = toy_Sign,
      ed_Verify = toy_Verify\<rparr>"

text \<open>The same ledger refusing every commit, and refusing every reveal.\<close>

definition sim_env_commit_fails :: env where
  "sim_env_commit_fails =
     (sim_env Map.empty)
       \<lparr>factom_CommitChain := (\<lambda>tr c ec. Inl (Error ''commit refused'')),
        factom_CommitEntry := (\<lambda>tr e ec. Inl (Error ''commit refused''))\<rparr>"

definition sim_env_reveal_fails :: env where
  "sim_env_reveal_fails =
     (sim_env Map.empty)
       \<lparr>factom_RevealChain := (\<lambda>tr c. Inl (Error ''reveal refused'')),
        factom_RevealEntry := (\<lambda>tr e. Inl (Error ''reveal refused''))\<rparr>"

text \<open>An owner with a key pair of that scheme, and a vehicle of theirs.\<close>

definition sim_address :: ECAddress where
  "sim_address = \<lparr>Pub = replicate 32 1, Sec = replicate 32 7 @ replicate 32 1\<rparr>"

definition sim_person :: Person where
  "sim_person = Person (Some sim_address) ''driver-chain'' [] []"

definition sim_vehicle :: Vehicle where
  "sim_vehicle = Vehicle ''1234567890ABCDEFH'' ''vehicle-chain'' (Some sim_person) []"

text \<open>
  A file, its fingerprint, and records for the vehicle's chain: one anchored by the
  owner, one with the public-key field missing, one signed by the owner but carrying
  somebody else's public key, one without metadata, and one anchored by somebody else for
  the same fingerprint.
\<close>

definition sim_file :: "byte list" where
  "sim_file = [1, 2, 3]"

definition sim_stranger :: ECAddress where
  "sim_stranger = \<lparr>Pub = replicate 32 2, Sec = replicate 32 8 @ replicate 32 2\<rparr>"

definition sim_good :: Entry where
  "sim_good = \<lparr>ChainID = ''vehicle-chain'',
                ExtIDs = [toy_Sign (Sec sim_address) (sha256_Sum sim_file), Pub sim_address],
                Content = sha256_Sum sim_file\<rparr>"

definition sim_malformed :: Entry where
  "sim_malformed = \<lparr>ChainID = ''vehicle-chain'',
                     ExtIDs = [toy_Sign (Sec sim_address) (sha256_Sum sim_file)],
                     Content = sha256_Sum sim_file\<rparr>"

definition sim_mislabelled :: Entry where
  "sim_mislabelled = \<lparr>ChainID = ''vehicle-chain'',
                       ExtIDs = [toy_Sign (Sec sim_address) (sha256_Sum sim_file), Pub sim_stranger],
                       Content = sha256_Sum sim_file\<rparr>"

definition sim_empty :: Entry where
  "sim_empty = \<lparr>ChainID = ''vehicle-chain'', ExtIDs = [], Content = sha256_Sum sim_file\<rparr>"

definition sim_foreign :: Entry where
  "sim_foreign = \<lparr>ChainID = ''vehicle-chain'',
                   ExtIDs = [toy_Sign (Sec sim_stranger) (sha256_Sum sim_file), Pub sim_stranger],
                   Content = sha256_Sum sim_file\<rparr>"

section \<open>Properties of the built-ins and of SHA-256\<close>

lemma bytes_Compare_eq: "bytes_Compare a b = 0 \<longleftrightarrow> a = b"
  by (induction a b rule: bytes_Compare.induct) auto

lemma length_signature_of: "length (signature_of s) = 64"
  by (simp add: signature_of_def copy_def min_def)

lemma signature_of_truncates: "64 \<le> length s \<Longrightarrow> signature_of s = take 64 s"
  by (simp add: signature_of_def copy_def min_def)

lemma signature_of_pads: "length s \<le> 64 \<Longrightarrow> signature_of s = s @ replicate (64 - length s) 0"
  by (simp add: signature_of_def copy_def min_def)

lemma signature_of_id: "length s = 64 \<Longrightarrow> signature_of s = s"
  by (simp add: signature_of_pads)

lemma signature_of_idem: "signature_of (signature_of s) = signature_of s"
  by (simp add: signature_of_id length_signature_of)

lemma length_sha256_round: "length (sha256_round v kw) = length v"
  by (induction v kw rule: sha256_round.induct) (simp_all add: Let_def)

lemma length_foldl_sha256_round: "length (foldl sha256_round v kws) = length v"
  by (induction kws arbitrary: v) (simp_all add: length_sha256_round)

lemma length_sha256_compress: "length (sha256_compress hs block) = length hs"
  by (simp add: sha256_compress_def length_foldl_sha256_round)

lemma length_foldl_sha256_compress: "length (foldl sha256_compress hs blocks) = length hs"
  by (induction blocks arbitrary: hs) (simp_all add: length_sha256_compress)

lemma length_concat_be32: "length (concat (map be32 ws)) = 4 * length ws"
  by (induction ws) (simp_all add: be32_def)

text \<open>
  The constants so defined are those printed in the standard: the initial hash value, and
  the first round constants.
\<close>

lemma sha256_init_value:
  "sha256_init =
     [0x6a09e667, 0xbb67ae85, 0x3c6ef372, 0xa54ff53a, 0x510e527f, 0x9b05688c, 0x1f83d9ab, 0x5be0cd19]"
  by code_simp

lemma sha256_K_first:
  "map (frac_root32 3) [2, 3, 5, 7] = [0x428a2f98, 0x71374491, 0xb5c0fbcf, 0xe9b5dba5]"
  by code_simp

lemma length_sha256_init: "length sha256_init = 8"
  by (simp add: sha256_init_value)

lemma length_sha256_Sum: "length (sha256_Sum m) = 32"
  by (simp add: sha256_Sum_def length_concat_be32 length_foldl_sha256_compress
        length_sha256_init)

section \<open>The scan loop of \<open>VerifyData\<close>\<close>

lemma owner_ecAddress_panic: "owner_ecAddress vehicle = Inl p \<Longrightarrow> p = NilDereference"
  by (auto simp add: owner_ecAddress_def split: option.splits)

lemma VerifyData_loop_step:
  assumes "owner_ecAddress vehicle = Inr a"
  shows "VerifyData_loop E vehicle localHash (entry # entries) =
           (if entry_matches E a localHash entry then Inr (True, None)
            else VerifyData_loop E vehicle localHash entries)"
  using assms by (auto simp add: entry_matches_def index_def bytes_Compare_eq Let_def)

lemma VerifyData_loop_result:
  assumes "owner_ecAddress vehicle = Inr a"
  shows "VerifyData_loop E vehicle localHash entries =
           Inr (\<exists>entry \<in> set entries. entry_matches E a localHash entry, None)"
proof (induction entries)
  case Nil
  show ?case by simp
next
  case (Cons entry entries)
  show ?case
    unfolding VerifyData_loop_step [OF assms] using Cons.IH by simp
qed

lemma VerifyData_loop_skip_malformed:
  "length (ExtIDs entry) \<noteq> 2 \<Longrightarrow>
     VerifyData_loop E vehicle localHash (entry # entries) =
     VerifyData_loop E vehicle localHash entries"
  by simp

lemma VerifyData_loop_no_index_panic:
  "VerifyData_loop E vehicle localHash entries \<noteq> Inl IndexOutOfRange"
proof (induction entries)
  case Nil
  show ?case by simp
next
  case (Cons entry entries)
  show ?case
  proof (cases "owner_ecAddress vehicle")
    case (Inl p)
    with owner_ecAddress_panic [OF Inl] Cons.IH show ?thesis
      by (simp add: index_def split: if_splits)
  next
    case (Inr a)
    show ?thesis
      unfolding VerifyData_loop_result [OF Inr] by simp
  qed
qed

lemma VerifyData_result:
  assumes "owner_ecAddress vehicle = Inr a"
      and "factom_GetAllChainEntries E tr (vehicle_chainID vehicle) = Inr entries"
      and "ioutil_ReadFile E (tr @ [Call_GetAllChainEntries (vehicle_chainID vehicle)]) filepath
             = Inr file"
  shows "VerifyData E vehicle filepath tr =
           (Inr (\<exists>entry \<in> set entries. entry_matches E a (sha256_Sum file) entry, None),
            tr @ [Call_GetAllChainEntries (vehicle_chainID vehicle), Call_ReadFile filepath])"
  using assms
  by (simp add: VerifyData_def GetAllChainEntries_def getFileHash_def ReadFile_def
        VerifyData_loop_result)

lemma VerifyData_no_index_panic:
  "fst (VerifyData E vehicle filepath tr) \<noteq> Inl IndexOutOfRange"
  by (simp add: VerifyData_def VerifyData_loop_no_index_panic
        split: prod.splits sum.splits option.splits)

lemma VerifyData_loop_same_tail:
  "VerifyData_loop E vehicle localHash xs = VerifyData_loop E vehicle localHash ys \<Longrightarrow>
     VerifyData_loop E vehicle localHash (entry # xs) =
     VerifyData_loop E vehicle localHash (entry # ys)"
  by (simp split: sum.splits)

lemma VerifyData_loop_drop_malformed:
  "length (ExtIDs bad) \<noteq> 2 \<Longrightarrow>
     VerifyData_loop E vehicle localHash (pre @ bad # post) =
     VerifyData_loop E vehicle localHash (pre @ post)"
proof (induction pre)
  case Nil
  then show ?case by simp
next
  case (Cons entry pre)
  then show ?case
    using VerifyData_loop_same_tail [of E vehicle localHash "pre @ bad # post" "pre @ post" entry]
    by simp
qed

lemma VerifyData_loop_filter_wellshaped:
  "VerifyData_loop E vehicle localHash (filter (\<lambda>e. length (ExtIDs e) = 2) entries) =
     VerifyData_loop E vehicle localHash entries"
proof (induction entries)
  case Nil
  show ?case by simp
next
  case (Cons entry entries)
  show ?case
  proof (cases "length (ExtIDs entry) = 2")
    case True
    with VerifyData_loop_same_tail [OF Cons.IH, of entry] show ?thesis
      by (simp del: VerifyData_loop.simps)
  next
    case False
    with Cons.IH show ?thesis by simp
  qed
qed

lemma sim_owner: "owner_ecAddress sim_vehicle = Inr sim_address"
  by (simp add: owner_ecAddress_def sim_vehicle_def sim_person_def)

lemma sim_good_matches:
  "entry_matches (sim_env files) sim_address (sha256_Sum sim_file) sim_good"
  by (simp add: entry_matches_def sim_good_def PubBytes_def PubFixed_def signature_of_idem
        sim_env_def toy_Verify_def toy_Sign_def sim_address_def)

lemma sim_malformed_no_match: "\<not> entry_matches E a h sim_malformed"
  by (simp add: entry_matches_def sim_malformed_def)

lemma sim_keys_differ: "Pub sim_stranger \<noteq> Pub sim_address"
proof -
  have "(2::byte) \<noteq> 1" by simp
  then have "replicate 32 (2::byte) \<noteq> replicate 32 1"
    by (metis replicate_eq_replicate zero_neq_numeral)
  then show ?thesis
    by (simp add: sim_address_def sim_stranger_def)
qed

lemma sim_foreign_no_match: "\<not> entry_matches E sim_address h sim_foreign"
  using sim_keys_differ by (simp add: entry_matches_def sim_foreign_def PubBytes_def)

section \<open>The fingerprint generator\<close>

text \<open>
  Claim C8. \<open>getFileHash\<close> reads the file once. When the read succeeds it returns the
  SHA-256 digest of the bytes read and no error, and the digest has 32 bytes; when the
  read fails it returns the nil slice and that same error. The digest depends on the
  bytes alone: two reads giving the same bytes, in whatever environment and at whatever
  path, give the same result. The function has no panic among its results.
\<close>

theorem getFileHash_digest:
  "(ioutil_ReadFile E tr path = Inr file \<longrightarrow>
      getFileHash E path tr = ((sha256_Sum file, None), tr @ [Call_ReadFile path]) \<and>
      length (sha256_Sum file) = 32) \<and>
   (ioutil_ReadFile E tr path = Inl err \<longrightarrow>
      getFileHash E path tr = (([], Some err), tr @ [Call_ReadFile path])) \<and>
   (ioutil_ReadFile E tr path = Inr file \<and> ioutil_ReadFile E' tr' path' = Inr file \<longrightarrow>
      fst (getFileHash E path tr) = fst (getFileHash E' path' tr'))"
  by (simp add: getFileHash_def ReadFile_def length_sha256_Sum)

theorem getFileHash_digest_witness:
  "getFileHash (sim_env [''obd.txt'' \<mapsto> [1, 2, 3]]) ''obd.txt'' [] =
     ((sha256_Sum [1, 2, 3], None), [Call_ReadFile ''obd.txt'']) \<and>
   length (sha256_Sum [1, 2, 3]) = 32 \<and>
   getFileHash (sim_env [''obd.txt'' \<mapsto> [1, 2, 3]]) ''missing.txt'' [] =
     (([], Some (Error ''no such file'')), [Call_ReadFile ''missing.txt''])"
proof -
  let ?E = "sim_env [''obd.txt'' \<mapsto> [1, 2, 3]]"
  have ok: "ioutil_ReadFile ?E [] ''obd.txt'' = Inr [1, 2, 3]"
    by (simp add: sim_env_def)
  have bad: "ioutil_ReadFile ?E [] ''missing.txt'' = Inl (Error ''no such file'')"
    by (simp add: sim_env_def)
  from getFileHash_digest [of ?E "[]" "''obd.txt''" "[1, 2, 3]"] ok
  have 1: "getFileHash ?E ''obd.txt'' [] =
             ((sha256_Sum [1, 2, 3], None), [Call_ReadFile ''obd.txt''])"
    and 2: "length (sha256_Sum [1, 2, 3]) = 32"
    by simp_all
  from getFileHash_digest [of ?E "[]" "''missing.txt''" _ "Error ''no such file''"] bad
  have 3: "getFileHash ?E ''missing.txt'' [] =
             (([], Some (Error ''no such file'')), [Call_ReadFile ''missing.txt''])"
    by simp
  from 1 2 3 show ?thesis by simp
qed

section \<open>The full scan\<close>

text \<open>
  Claim C9. The scan never indexes out of range, whatever the history: neither the loop
  nor \<open>VerifyData\<close> as a whole ends in an index panic. The signature field of a
  well-shaped record is copied into a 64-byte array: the array always has 64 bytes, it is
  the first 64 bytes of a longer field and a shorter field followed by zeros. A
  well-shaped record carrying the owner's key is then decided by the signature check on
  that array and the comparison of the content, whatever the length of the field; and
  with an owner and key present the loop ends without any panic.
\<close>

theorem VerifyData_signature_length_safe:
  "VerifyData_loop E vehicle localHash entries \<noteq> Inl IndexOutOfRange \<and>
   fst (VerifyData E vehicle filepath tr) \<noteq> Inl IndexOutOfRange \<and>
   length (signature_of sig) = 64 \<and>
   (64 \<le> length sig \<longrightarrow> signature_of sig = take 64 sig) \<and>
   (length sig \<le> 64 \<longrightarrow> signature_of sig = sig @ replicate (64 - length sig) 0) \<and>
   (owner_ecAddress vehicle = Inr a \<and> length (ExtIDs entry) = 2 \<and>
    ExtIDs entry ! 1 = PubBytes a \<longrightarrow>
      VerifyData_loop E vehicle localHash (entry # entries) =
        (if ed_Verify E (PubFixed a) (Content entry) (signature_of (ExtIDs entry ! 0)) \<and>
            Content entry = localHash
         then Inr (True, None)
         else VerifyData_loop E vehicle localHash entries)) \<and>
   (owner_ecAddress vehicle = Inr a \<longrightarrow>
      (\<exists>r. VerifyData_loop E vehicle localHash entries = Inr r))"
proof -
  have "owner_ecAddress vehicle = Inr a \<and> length (ExtIDs entry) = 2 \<and>
    ExtIDs entry ! 1 = PubBytes a \<longrightarrow>
      VerifyData_loop E vehicle localHash (entry # entries) =
        (if ed_Verify E (PubFixed a) (Content entry) (signature_of (ExtIDs entry ! 0)) \<and>
            Content entry = localHash
         then Inr (True, None)
         else VerifyData_loop E vehicle localHash entries)"
    by (auto simp del: VerifyData_loop.simps simp add: VerifyData_loop_step entry_matches_def)
  moreover have "owner_ecAddress vehicle = Inr a \<longrightarrow>
      (\<exists>r. VerifyData_loop E vehicle localHash entries = Inr r)"
    by (simp add: VerifyData_loop_result)
  ultimately show ?thesis
    using VerifyData_loop_no_index_panic [of E vehicle localHash entries]
      VerifyData_no_index_panic [of E vehicle filepath tr]
      length_signature_of [of sig] signature_of_truncates [of sig] signature_of_pads [of sig]
    by blast
qed

text \<open>
  A record whose signature field is a valid signature followed by three more bytes is
  accepted, the extra bytes being cut off; a three-byte field is padded with 61 zeros.
\<close>

theorem VerifyData_signature_length_safe_witness:
  "VerifyData_loop (sim_env Map.empty) sim_vehicle (sha256_Sum [1, 2, 3])
     [\<lparr>ChainID = ''vehicle-chain'',
       ExtIDs = [toy_Sign (Sec sim_address) (sha256_Sum [1, 2, 3]) @ [9, 9, 9], Pub sim_address],
       Content = sha256_Sum [1, 2, 3]\<rparr>] = Inr (True, None) \<and>
   signature_of (toy_Sign (Sec sim_address) (sha256_Sum [1, 2, 3]) @ [9, 9, 9]) =
     toy_Sign (Sec sim_address) (sha256_Sum [1, 2, 3]) \<and>
   signature_of [1, 2, 3] = [1, 2, 3] @ replicate 61 0"
proof -
  let ?E = "sim_env Map.empty"
  let ?h = "sha256_Sum [1, 2, 3]"
  let ?sig = "toy_Sign (Sec sim_address) ?h @ [9, 9, 9]"
  let ?e = "\<lparr>ChainID = ''vehicle-chain'', ExtIDs = [?sig, Pub sim_address], Content = ?h\<rparr>"
  have long: "64 \<le> length ?sig"
    by (simp add: toy_Sign_def length_signature_of)
  have cut: "take 64 ?sig = toy_Sign (Sec sim_address) ?h"
    by (simp add: toy_Sign_def length_signature_of)
  have shape: "length (ExtIDs ?e) = 2" "ExtIDs ?e ! 1 = PubBytes sim_address"
    by (simp_all add: PubBytes_def)
  have valid: "ed_Verify ?E (PubFixed sim_address) (Content ?e)
                 (toy_Sign (Sec sim_address) ?h)"
    by (simp add: sim_env_def toy_Verify_def toy_Sign_def PubFixed_def sim_address_def)
  from VerifyData_signature_length_safe
         [where E = ?E and vehicle = sim_vehicle and localHash = ?h and entries = "[]"
            and sig = ?sig and a = sim_address and entry = ?e] long cut
  have trunc: "signature_of ?sig = toy_Sign (Sec sim_address) ?h"
    by simp
  from VerifyData_signature_length_safe
         [where E = ?E and vehicle = sim_vehicle and localHash = ?h and entries = "[]"
            and sig = ?sig and a = sim_address and entry = ?e] sim_owner shape valid trunc
  have found: "VerifyData_loop ?E sim_vehicle ?h [?e] = Inr (True, None)"
    by simp
  from VerifyData_signature_length_safe [where sig = "[1, 2, 3]"]
  have pad: "signature_of [1, 2, 3] = [1, 2, 3] @ replicate 61 0"
    by simp
  from found trunc pad show ?thesis by simp
qed

text \<open>
  Claim C1. Let the vehicle have an owner with an address, let the ledger return the
  history \<open>entries\<close> and the file system the bytes \<open>file\<close>. Then \<open>VerifyData\<close> returns
  \<open>(true, nil)\<close> exactly when some record of the history has two metadata fields, the
  owner's public key as the second, a first field that verifies as a signature of the
  record's content under the owner's key, and the fingerprint of the file as content;
  otherwise it returns \<open>(false, nil)\<close>. The scan goes through the history in order: a
  matching record ends it with \<open>(true, nil)\<close> whatever follows, any other record is
  passed over, and the end of the history gives \<open>(false, nil)\<close>.
\<close>

theorem VerifyData_full_scan:
  assumes "owner_ecAddress vehicle = Inr a"
      and "factom_GetAllChainEntries E tr (vehicle_chainID vehicle) = Inr entries"
      and "ioutil_ReadFile E (tr @ [Call_GetAllChainEntries (vehicle_chainID vehicle)]) filepath
             = Inr file"
  shows "fst (VerifyData E vehicle filepath tr) =
           Inr (\<exists>entry \<in> set entries. entry_matches E a (sha256_Sum file) entry, None) \<and>
         (\<forall>entry rest. VerifyData_loop E vehicle (sha256_Sum file) (entry # rest) =
            (if entry_matches E a (sha256_Sum file) entry then Inr (True, None)
             else VerifyData_loop E vehicle (sha256_Sum file) rest)) \<and>
         VerifyData_loop E vehicle (sha256_Sum file) [] = Inr (False, None)"
  using VerifyData_result [OF assms] VerifyData_loop_step [OF assms(1)]
  by (simp del: VerifyData_loop.simps(2))

text \<open>
  On a chain holding a malformed record, a stranger's record, the owner's record and the
  stranger's record again, the file is verified; without the owner's record it is not.
\<close>

theorem VerifyData_full_scan_witness:
  "fst (VerifyData (sim_env [''obd.txt'' \<mapsto> sim_file]) sim_vehicle ''obd.txt''
          [Call_RevealEntry sim_malformed, Call_RevealEntry sim_foreign,
           Call_RevealEntry sim_good, Call_RevealEntry sim_foreign]) = Inr (True, None) \<and>
   fst (VerifyData (sim_env [''obd.txt'' \<mapsto> sim_file]) sim_vehicle ''obd.txt''
          [Call_RevealEntry sim_malformed, Call_RevealEntry sim_foreign]) = Inr (False, None)"
proof -
  let ?E = "sim_env [''obd.txt'' \<mapsto> sim_file]"
  let ?tr1 = "[Call_RevealEntry sim_malformed, Call_RevealEntry sim_foreign,
               Call_RevealEntry sim_good, Call_RevealEntry sim_foreign]"
  let ?tr2 = "[Call_RevealEntry sim_malformed, Call_RevealEntry sim_foreign]"
  have h1: "factom_GetAllChainEntries ?E ?tr1 (vehicle_chainID sim_vehicle) =
              Inr [sim_malformed, sim_foreign, sim_good, sim_foreign]"
    by (simp add: sim_env_def sim_vehicle_def sim_malformed_def sim_foreign_def sim_good_def)
  have h2: "factom_GetAllChainEntries ?E ?tr2 (vehicle_chainID sim_vehicle) =
              Inr [sim_malformed, sim_foreign]"
    by (simp add: sim_env_def sim_vehicle_def sim_malformed_def sim_foreign_def)
  have r: "ioutil_ReadFile ?E t ''obd.txt'' = Inr sim_file" for t
    by (simp add: sim_env_def)
  from VerifyData_full_scan [OF sim_owner h1 r]
  have 1: "fst (VerifyData ?E sim_vehicle ''obd.txt'' ?tr1) = Inr (True, None)"
    by (simp add: sim_good_matches)
  from VerifyData_full_scan [OF sim_owner h2 r]
  have 2: "fst (VerifyData ?E sim_vehicle ''obd.txt'' ?tr2) = Inr (False, None)"
    by (simp add: sim_malformed_no_match sim_foreign_no_match)
  from 1 2 show ?thesis by simp
qed

lemma VerifyData_loop_skip_foreign:
  assumes "owner_ecAddress vehicle = Inr a"
  shows "VerifyData_loop E vehicle localHash
           (filter (\<lambda>e. \<not> (length (ExtIDs e) = 2 \<and> ExtIDs e ! 1 \<noteq> PubBytes a)) entries) =
         VerifyData_loop E vehicle localHash entries"
  unfolding VerifyData_loop_result [OF assms]
  by (auto simp add: entry_matches_def)

text \<open>
  Claim C5. Let the vehicle have an owner with an address. A well-shaped record whose
  public-key field is not the owner's public key is passed over by the scan, whatever its
  content and signature: the scan of a history gives the same result with such records
  removed. When the ledger returns a history in which no well-shaped record carries the
  owner's key, \<open>VerifyData\<close> returns \<open>(false, nil)\<close>; and whenever it returns
  \<open>(true, nil)\<close>, the history holds a well-shaped record with the owner's key and the
  file's fingerprint as content.
\<close>

theorem VerifyData_ownership_scoping:
  assumes "owner_ecAddress vehicle = Inr a"
      and "factom_GetAllChainEntries E tr (vehicle_chainID vehicle) = Inr entries"
      and "ioutil_ReadFile E (tr @ [Call_GetAllChainEntries (vehicle_chainID vehicle)]) filepath
             = Inr file"
  shows "(length (ExtIDs entry) = 2 \<and> ExtIDs entry ! 1 \<noteq> PubBytes a \<longrightarrow>
            VerifyData_loop E vehicle localHash (entry # rest) =
            VerifyData_loop E vehicle localHash rest) \<and>
         VerifyData_loop E vehicle localHash
           (filter (\<lambda>e. \<not> (length (ExtIDs e) = 2 \<and> ExtIDs e ! 1 \<noteq> PubBytes a)) rest) =
         VerifyData_loop E vehicle localHash rest \<and>
         ((\<forall>e \<in> set entries. length (ExtIDs e) = 2 \<longrightarrow> ExtIDs e ! 1 \<noteq> PubBytes a) \<longrightarrow>
            fst (VerifyData E vehicle filepath tr) = Inr (False, None)) \<and>
         (fst (VerifyData E vehicle filepath tr) = Inr (True, None) \<longrightarrow>
            (\<exists>e \<in> set entries. length (ExtIDs e) = 2 \<and> ExtIDs e ! 1 = PubBytes a \<and>
               Content e = sha256_Sum file))"
proof -
  have "length (ExtIDs entry) = 2 \<and> ExtIDs entry ! 1 \<noteq> PubBytes a \<longrightarrow>
            VerifyData_loop E vehicle localHash (entry # rest) =
            VerifyData_loop E vehicle localHash rest"
    by (simp del: VerifyData_loop.simps add: VerifyData_loop_step [OF assms(1)] entry_matches_def)
  moreover have "(\<forall>e \<in> set entries. length (ExtIDs e) = 2 \<longrightarrow> ExtIDs e ! 1 \<noteq> PubBytes a) \<longrightarrow>
            fst (VerifyData E vehicle filepath tr) = Inr (False, None)"
    by (auto simp add: VerifyData_result [OF assms] entry_matches_def)
  moreover have "fst (VerifyData E vehicle filepath tr) = Inr (True, None) \<longrightarrow>
            (\<exists>e \<in> set entries. length (ExtIDs e) = 2 \<and> ExtIDs e ! 1 = PubBytes a \<and>
               Content e = sha256_Sum file)"
    by (auto simp add: VerifyData_result [OF assms] entry_matches_def)
  ultimately show ?thesis
    using VerifyData_loop_skip_foreign [OF assms(1), of E localHash rest] by blast
qed

text \<open>
  A record anchored by a stranger for the same fingerprint, with a signature that is valid
  under the stranger's key, does not verify the file for the owner.
\<close>

theorem VerifyData_ownership_scoping_witness:
  "fst (VerifyData (sim_env [''obd.txt'' \<mapsto> sim_file]) sim_vehicle ''obd.txt''
          [Call_RevealEntry sim_foreign]) = Inr (False, None) \<and>
   Content sim_foreign = sha256_Sum sim_file \<and>
   toy_Verify (Pub sim_stranger) (Content sim_foreign) (signature_of (ExtIDs sim_foreign ! 0))"
proof -
  let ?E = "sim_env [''obd.txt'' \<mapsto> sim_file]"
  have h: "factom_GetAllChainEntries ?E [Call_RevealEntry sim_foreign]
             (vehicle_chainID sim_vehicle) = Inr [sim_foreign]"
    by (simp add: sim_env_def sim_vehicle_def sim_foreign_def)
  have r: "ioutil_ReadFile ?E t ''obd.txt'' = Inr sim_file" for t
    by (simp add: sim_env_def)
  have foreign: "\<forall>e \<in> set [sim_foreign]. length (ExtIDs e) = 2 \<longrightarrow>
                   ExtIDs e ! 1 \<noteq> PubBytes sim_address"
    using sim_keys_differ by (simp add: sim_foreign_def PubBytes_def)
  from VerifyData_ownership_scoping [OF sim_owner h r] foreign
  have 1: "fst (VerifyData ?E sim_vehicle ''obd.txt'' [Call_RevealEntry sim_foreign]) =
             Inr (False, None)"
    by blast
  have 2: "toy_Verify (Pub sim_stranger) (Content sim_foreign)
             (signature_of (ExtIDs sim_foreign ! 0))"
    by (simp add: sim_foreign_def toy_Verify_def toy_Sign_def signature_of_idem sim_stranger_def)
  from 1 2 show ?thesis by (simp add: sim_foreign_def)
qed

text \<open>
  Claim C6. A record whose metadata does not have exactly two fields is passed over by
  the scan: wherever it stands in a history, the scan gives the same result without it,
  so it brings neither a panic nor an error nor an early end; and this with or without an
  owner. When the ledger returns a history with such a record and, further on, a record
  that matches, \<open>VerifyData\<close> returns \<open>(true, nil)\<close>, having made its two calls.
\<close>

theorem VerifyData_malformed_tolerance:
  "(length (ExtIDs bad) \<noteq> 2 \<longrightarrow>
      VerifyData_loop E vehicle localHash (pre @ bad # post) =
      VerifyData_loop E vehicle localHash (pre @ post)) \<and>
   VerifyData_loop E vehicle localHash (filter (\<lambda>e. length (ExtIDs e) = 2) entries) =
     VerifyData_loop E vehicle localHash entries \<and>
   (owner_ecAddress vehicle = Inr a \<and>
    factom_GetAllChainEntries E tr (vehicle_chainID vehicle) = Inr (pre @ bad # mid @ good # post) \<and>
    ioutil_ReadFile E (tr @ [Call_GetAllChainEntries (vehicle_chainID vehicle)]) filepath
      = Inr file \<and>
    length (ExtIDs bad) \<noteq> 2 \<and> entry_matches E a (sha256_Sum file) good \<longrightarrow>
      VerifyData E vehicle filepath tr =
        (Inr (True, None),
         tr @ [Call_GetAllChainEntries (vehicle_chainID vehicle), Call_ReadFile filepath]))"
proof -
  have "owner_ecAddress vehicle = Inr a \<and>
    factom_GetAllChainEntries E tr (vehicle_chainID vehicle) = Inr (pre @ bad # mid @ good # post) \<and>
    ioutil_ReadFile E (tr @ [Call_GetAllChainEntries (vehicle_chainID vehicle)]) filepath
      = Inr file \<and>
    length (ExtIDs bad) \<noteq> 2 \<and> entry_matches E a (sha256_Sum file) good \<longrightarrow>
      VerifyData E vehicle filepath tr =
        (Inr (True, None),
         tr @ [Call_GetAllChainEntries (vehicle_chainID vehicle), Call_ReadFile filepath])"
    by (auto simp add: VerifyData_result)
  then show ?thesis
    using VerifyData_loop_drop_malformed [of bad E vehicle localHash pre post]
      VerifyData_loop_filter_wellshaped [of E vehicle localHash entries]
    by blast
qed

text \<open>
  A record without metadata and one with a single field come before the owner's record
  on the chain; the file is verified.
\<close>

theorem VerifyData_malformed_tolerance_witness:
  "VerifyData (sim_env [''obd.txt'' \<mapsto> sim_file]) sim_vehicle ''obd.txt''
     [Call_RevealEntry sim_empty, Call_RevealEntry sim_malformed, Call_RevealEntry sim_good] =
   (Inr (True, None),
    [Call_RevealEntry sim_empty, Call_RevealEntry sim_malformed, Call_RevealEntry sim_good,
     Call_GetAllChainEntries ''vehicle-chain'', Call_ReadFile ''obd.txt''])"
proof -
  let ?E = "sim_env [''obd.txt'' \<mapsto> sim_file]"
  let ?tr = "[Call_RevealEntry sim_empty, Call_RevealEntry sim_malformed,
              Call_RevealEntry sim_good]"
  have h: "factom_GetAllChainEntries ?E ?tr (vehicle_chainID sim_vehicle) =
             Inr ([sim_empty] @ sim_malformed # [] @ sim_good # [])"
    by (simp add: sim_env_def sim_vehicle_def sim_empty_def sim_malformed_def sim_good_def)
  have r: "ioutil_ReadFile ?E t ''obd.txt'' = Inr sim_file" for t
    by (simp add: sim_env_def)
  have bad: "length (ExtIDs sim_malformed) \<noteq> 2"
    by (simp add: sim_malformed_def)
  from VerifyData_malformed_tolerance
         [where E = ?E and vehicle = sim_vehicle and a = sim_address and tr = ?tr
            and pre = "[sim_empty]" and bad = sim_malformed and mid = "[]" and good = sim_good
            and post = "[]" and filepath = "''obd.txt''"]
       sim_owner h r bad sim_good_matches [of "[''obd.txt'' \<mapsto> sim_file]"]
  show ?thesis
    by (simp add: sim_vehicle_def)
qed

section \<open>The point lookup\<close>

lemma checkFileIntegrity_result:
  assumes "ioutil_ReadFile E tr filepath = Inr file"
      and "factom_GetEntry E (tr @ [Call_ReadFile filepath]) entryHash = Inr entry"
  shows "checkFileIntegrity E vehicle filepath entryHash tr =
           (case ExtIDs entry of
              [] \<Rightarrow> Inl IndexOutOfRange
            | sig # others \<Rightarrow>
                (case owner_ecAddress vehicle of
                   Inl p \<Rightarrow> Inl p
                 | Inr a \<Rightarrow>
                     Inr (ed_Verify E (Pub a) (Content entry) (signature_of sig) \<and>
                          sha256_Sum file = Content entry, None)),
            tr @ [Call_ReadFile filepath, Call_GetEntry entryHash])"
  using assms
  by (auto simp add: checkFileIntegrity_def getFileHash_def ReadFile_def GetEntry_def index_def
        bytes_Compare_eq Let_def split: list.splits sum.splits)

text \<open>
  Claim C10. Let the file be read and the record be fetched. \<open>checkFileIntegrity\<close>
  reads the first metadata field of the record without looking at their number: on a
  record without metadata it panics with an index out of range, where the full scan
  passes such a record over; on a record with at least one metadata field it does not,
  and with an owner and key present it then returns a verdict and no error.
\<close>

theorem checkFileIntegrity_needs_metadata:
  assumes "ioutil_ReadFile E tr filepath = Inr file"
      and "factom_GetEntry E (tr @ [Call_ReadFile filepath]) entryHash = Inr entry"
  shows "(ExtIDs entry = [] \<longrightarrow>
            fst (checkFileIntegrity E vehicle filepath entryHash tr) = Inl IndexOutOfRange) \<and>
         (ExtIDs entry \<noteq> [] \<longrightarrow>
            fst (checkFileIntegrity E vehicle filepath entryHash tr) \<noteq> Inl IndexOutOfRange) \<and>
         (ExtIDs entry \<noteq> [] \<and> owner_ecAddress vehicle = Inr a \<longrightarrow>
            (\<exists>b. fst (checkFileIntegrity E vehicle filepath entryHash tr) = Inr (b, None))) \<and>
         (ExtIDs entry = [] \<longrightarrow>
            VerifyData_loop E vehicle localHash (entry # rest) =
            VerifyData_loop E vehicle localHash rest)"
proof -
  have "ExtIDs entry \<noteq> [] \<longrightarrow>
          fst (checkFileIntegrity E vehicle filepath entryHash tr) \<noteq> Inl IndexOutOfRange"
    using owner_ecAddress_panic [of vehicle]
    by (auto simp add: checkFileIntegrity_result [OF assms] split: list.splits sum.splits)
  then show ?thesis
    by (auto simp add: checkFileIntegrity_result [OF assms] split: list.splits)
qed

lemma sim_GetEntry:
  "factom_GetEntry (sim_env files) (Call_RevealEntry e # tr) (sim_entry_hash e) = Inr e"
  by (simp add: sim_env_def)

text \<open>
  Fetching a record without metadata panics; the scan of a chain holding only that record
  answers \<open>(false, nil)\<close>; fetching the owner's record gives a verdict.
\<close>

theorem checkFileIntegrity_needs_metadata_witness:
  "fst (checkFileIntegrity (sim_env [''obd.txt'' \<mapsto> sim_file]) sim_vehicle ''obd.txt''
          (sim_entry_hash sim_empty) [Call_RevealEntry sim_empty]) = Inl IndexOutOfRange \<and>
   VerifyData_loop (sim_env [''obd.txt'' \<mapsto> sim_file]) sim_vehicle (sha256_Sum sim_file)
     [sim_empty] = Inr (False, None) \<and>
   (\<exists>b. fst (checkFileIntegrity (sim_env [''obd.txt'' \<mapsto> sim_file]) sim_vehicle ''obd.txt''
          (sim_entry_hash sim_good) [Call_RevealEntry sim_good]) = Inr (b, None))"
proof -
  let ?E = "sim_env [''obd.txt'' \<mapsto> sim_file]"
  have r: "ioutil_ReadFile ?E t ''obd.txt'' = Inr sim_file" for t
    by (simp add: sim_env_def)
  have g1: "factom_GetEntry ?E ([Call_RevealEntry sim_empty] @ [Call_ReadFile ''obd.txt''])
              (sim_entry_hash sim_empty) = Inr sim_empty"
    by (simp add: sim_GetEntry)
  have g2: "factom_GetEntry ?E ([Call_RevealEntry sim_good] @ [Call_ReadFile ''obd.txt''])
              (sim_entry_hash sim_good) = Inr sim_good"
    by (simp add: sim_GetEntry)
  have e1: "ExtIDs sim_empty = []"
    by (simp add: sim_empty_def)
  have e2: "ExtIDs sim_good \<noteq> []"
    by (simp add: sim_good_def)
  from checkFileIntegrity_needs_metadata
         [OF r g1, where vehicle = sim_vehicle and localHash = "sha256_Sum sim_file"
            and rest = "[]"] e1
  have 1: "fst (checkFileIntegrity ?E sim_vehicle ''obd.txt'' (sim_entry_hash sim_empty)
             [Call_RevealEntry sim_empty]) = Inl IndexOutOfRange"
    and 2: "VerifyData_loop ?E sim_vehicle (sha256_Sum sim_file) [sim_empty] = Inr (False, None)"
    by simp_all
  from checkFileIntegrity_needs_metadata
         [OF r g2, where vehicle = sim_vehicle and a = sim_address] e2 sim_owner
  have 3: "\<exists>b. fst (checkFileIntegrity ?E sim_vehicle ''obd.txt'' (sim_entry_hash sim_good)
             [Call_RevealEntry sim_good]) = Inr (b, None)"
    by blast
  from 1 2 3 show ?thesis by blast
qed

text \<open>
  Claim C4, where the program departs from it. \<open>checkFileIntegrity\<close> checks neither the
  number of metadata fields nor the public-key field: whenever the first metadata field
  of the fetched record verifies under the owner's key and the content is the file's
  fingerprint, it returns \<open>(true, nil)\<close>, whatever the other metadata fields are; and
  unless these are exactly the owner's public key, the full scan passes the same record
  over.
\<close>

theorem checkFileIntegrity_skips_shape_and_key_checks:
  assumes "ioutil_ReadFile E tr filepath = Inr file"
      and "factom_GetEntry E (tr @ [Call_ReadFile filepath]) entryHash = Inr entry"
      and "owner_ecAddress vehicle = Inr a"
      and "ExtIDs entry = sig # others"
      and "ed_Verify E (Pub a) (Content entry) (signature_of sig)"
      and "Content entry = sha256_Sum file"
  shows "checkFileIntegrity E vehicle filepath entryHash tr =
           (Inr (True, None), tr @ [Call_ReadFile filepath, Call_GetEntry entryHash]) \<and>
         (others \<noteq> [PubBytes a] \<longrightarrow>
            VerifyData_loop E vehicle (sha256_Sum file) [entry] = Inr (False, None))"
proof -
  have "others \<noteq> [PubBytes a] \<longrightarrow> \<not> entry_matches E a (sha256_Sum file) entry"
    using assms(4) by (cases others) (auto simp add: entry_matches_def)
  then have "others \<noteq> [PubBytes a] \<longrightarrow>
               VerifyData_loop E vehicle (sha256_Sum file) [entry] = Inr (False, None)"
    unfolding VerifyData_loop_result [OF assms(3)] by simp
  then show ?thesis
    using assms by (simp add: checkFileIntegrity_result [OF assms(1,2)])
qed

text \<open>
  A record whose only metadata field is the owner's signature, and a record with the
  owner's signature and somebody else's public key, both make \<open>checkFileIntegrity\<close>
  return \<open>(true, nil)\<close>, while the full scan answers \<open>(false, nil)\<close> on either.
\<close>

theorem checkFileIntegrity_skips_shape_and_key_checks_witness:
  "checkFileIntegrity (sim_env [''obd.txt'' \<mapsto> sim_file]) sim_vehicle ''obd.txt''
     (sim_entry_hash sim_malformed) [Call_RevealEntry sim_malformed] =
     (Inr (True, None),
      [Call_RevealEntry sim_malformed, Call_ReadFile ''obd.txt'',
       Call_GetEntry (sim_entry_hash sim_malformed)]) \<and>
   VerifyData_loop (sim_env [''obd.txt'' \<mapsto> sim_file]) sim_vehicle (sha256_Sum sim_file)
     [sim_malformed] = Inr (False, None) \<and>
   checkFileIntegrity (sim_env [''obd.txt'' \<mapsto> sim_file]) sim_vehicle ''obd.txt''
     (sim_entry_hash sim_mislabelled) [Call_RevealEntry sim_mislabelled] =
     (Inr (True, None),
      [Call_RevealEntry sim_mislabelled, Call_ReadFile ''obd.txt'',
       Call_GetEntry (sim_entry_hash sim_mislabelled)]) \<and>
   VerifyData_loop (sim_env [''obd.txt'' \<mapsto> sim_file]) sim_vehicle (sha256_Sum sim_file)
     [sim_mislabelled] = Inr (False, None)"
proof -
  let ?E = "sim_env [''obd.txt'' \<mapsto> sim_file]"
  let ?sig = "toy_Sign (Sec sim_address) (sha256_Sum sim_file)"
  have r: "ioutil_ReadFile ?E t ''obd.txt'' = Inr sim_file" for t
    by (simp add: sim_env_def)
  have g: "factom_GetEntry ?E ([Call_RevealEntry e] @ [Call_ReadFile ''obd.txt''])
              (sim_entry_hash e) = Inr e" for e
    by (simp add: sim_GetEntry)
  have valid: "ed_Verify ?E (Pub sim_address) (sha256_Sum sim_file) (signature_of ?sig)"
    by (simp add: sim_env_def toy_Verify_def toy_Sign_def signature_of_idem sim_address_def)
  have m: "ExtIDs sim_malformed = ?sig # []" "Content sim_malformed = sha256_Sum sim_file"
    by (simp_all add: sim_malformed_def)
  have l: "ExtIDs sim_mislabelled = ?sig # [Pub sim_stranger]"
          "Content sim_mislabelled = sha256_Sum sim_file"
    by (simp_all add: sim_mislabelled_def)
  have k: "[Pub sim_stranger] \<noteq> [PubBytes sim_address]"
    using sim_keys_differ by (simp add: PubBytes_def)
  from checkFileIntegrity_skips_shape_and_key_checks [OF r g sim_owner m(1) _ m(2)] valid m(2)
  have 1: "checkFileIntegrity ?E sim_vehicle ''obd.txt'' (sim_entry_hash sim_malformed)
             [Call_RevealEntry sim_malformed] =
           (Inr (True, None), [Call_RevealEntry sim_malformed, Call_ReadFile ''obd.txt'',
              Call_GetEntry (sim_entry_hash sim_malformed)])"
    and 2: "VerifyData_loop ?E sim_vehicle (sha256_Sum sim_file) [sim_malformed] =
             Inr (False, None)"
    by simp_all
  from checkFileIntegrity_skips_shape_and_key_checks [OF r g sim_owner l(1) _ l(2)] valid l(2) k
  have 3: "checkFileIntegrity ?E sim_vehicle ''obd.txt'' (sim_entry_hash sim_mislabelled)
             [Call_RevealEntry sim_mislabelled] =
           (Inr (True, None), [Call_RevealEntry sim_mislabelled, Call_ReadFile ''obd.txt'',
              Call_GetEntry (sim_entry_hash sim_mislabelled)])"
    and 4: "VerifyData_loop ?E sim_vehicle (sha256_Sum sim_file) [sim_mislabelled] =
             Inr (False, None)"
    by simp_all
  from 1 2 3 4 show ?thesis by blast
qed

section \<open>Registration and anchoring\<close>

lemma Person_Register_registered:
  "factom_ChainExists E tr (person_chainID person) \<Longrightarrow>
     Person_Register E person ec tr =
       (Inr ([], None), tr @ [Call_ChainExists (person_chainID person)])"
  by (simp add: Person_Register_def Person_IsRegistered_def ChainExists_def)

lemma Vehicle_Register_registered:
  "factom_ChainExists E tr (vehicle_chainID vehicle) \<Longrightarrow>
     Vehicle_Register E vehicle ec tr =
       (Inr ([], None), tr @ [Call_ChainExists (vehicle_chainID vehicle)])"
  by (simp add: Vehicle_Register_def Vehicle_IsRegistered_def ChainExists_def)

lemma Person_Register_unregistered:
  assumes "\<not> factom_ChainExists E tr (person_chainID person)"
      and "ecAddress person = Some a"
  shows "Person_Register E person ec tr =
           (let c = Person_chain E a;
                tr1 = tr @ [Call_ChainExists (person_chainID person)]
            in case factom_CommitChain E tr1 c ec of
                 Inl err \<Rightarrow> (Inr ([], Some err), tr1 @ [Call_CommitChain c ec])
               | Inr txID \<Rightarrow>
                   (case factom_RevealChain E (tr1 @ [Call_CommitChain c ec]) c of
                      Inl err \<Rightarrow>
                        (Inr ([], Some err), tr1 @ [Call_CommitChain c ec, Call_RevealChain c])
                    | Inr t \<Rightarrow>
                        (Inr (txID, None), tr1 @ [Call_CommitChain c ec, Call_RevealChain c])))"
  using assms
  by (simp add: Person_Register_def Person_IsRegistered_def ChainExists_def CommitChain_def
        RevealChain_def Person_chain_def Let_def split: sum.splits)

lemma Vehicle_Register_unregistered:
  assumes "\<not> factom_ChainExists E tr (vehicle_chainID vehicle)"
  shows "Vehicle_Register E vehicle ec tr =
           (let c = Vehicle_chain E (vin vehicle);
                tr1 = tr @ [Call_ChainExists (vehicle_chainID vehicle)]
            in case factom_CommitChain E tr1 c ec of
                 Inl err \<Rightarrow> (Inr ([], Some err), tr1 @ [Call_CommitChain c ec])
               | Inr txID \<Rightarrow>
                   (case factom_RevealChain E (tr1 @ [Call_CommitChain c ec]) c of
                      Inl err \<Rightarrow>
                        (Inr ([], Some err), tr1 @ [Call_CommitChain c ec, Call_RevealChain c])
                    | Inr t \<Rightarrow>
                        (Inr (txID, None), tr1 @ [Call_CommitChain c ec, Call_RevealChain c])))"
  using assms
  by (simp add: Vehicle_Register_def Vehicle_IsRegistered_def ChainExists_def CommitChain_def
        RevealChain_def Vehicle_chain_def Let_def split: sum.splits)

lemma secureHashOnChain_result:
  assumes "owner_ecAddress vehicle = Inr a"
  shows "secureHashOnChain E vehicle hash tr =
           (let e = anchor_entry E vehicle a hash
            in case factom_CommitEntry E tr e a of
                 Inl err \<Rightarrow> (Inr ([], Some err), tr @ [Call_CommitEntry e a])
               | Inr txID \<Rightarrow>
                   (case factom_RevealEntry E (tr @ [Call_CommitEntry e a]) e of
                      Inl err \<Rightarrow>
                        (Inr ([], Some err), tr @ [Call_CommitEntry e a, Call_RevealEntry e])
                    | Inr t \<Rightarrow>
                        (Inr (txID, None), tr @ [Call_CommitEntry e a, Call_RevealEntry e])))"
  using assms
  by (simp add: secureHashOnChain_def CommitEntry_def RevealEntry_def anchor_entry_def Let_def
        split: sum.splits)

lemma fold_ExtIDs:
  "fold (\<lambda>nameSegment e. e\<lparr>ExtIDs := ExtIDs e @ [nameSegment]\<rparr>) names e0 =
     e0\<lparr>ExtIDs := ExtIDs e0 @ names\<rparr>"
  by (induction names arbitrary: e0) simp_all

lemma constructChainID_eq:
  "constructChainID E names =
     chain_ChainID (factom_NewChain E \<lparr>ChainID = [], ExtIDs = names, Content = []\<rparr>)"
  by (simp add: constructChainID_def fold_ExtIDs)

lemma NewPerson_fields:
  "NewPerson E (Some a) = Inr person \<Longrightarrow>
     person_chainID person = chain_ChainID (Person_chain E a) \<and> ecAddress person = Some a"
  by (auto simp add: NewPerson_def constructChainID_eq Person_chain_def)

lemma NewVehicle_fields:
  "NewVehicle E v = Some vehicle \<Longrightarrow>
     vehicle_chainID vehicle = chain_ChainID (Vehicle_chain E v) \<and> vin vehicle = v"
  by (auto simp add: NewVehicle_def constructChainID_eq Vehicle_chain_def split: if_splits)

lemma chain_commits_append: "chain_commits (xs @ ys) = chain_commits xs @ chain_commits ys"
  by (induction xs rule: chain_commits.induct) simp_all

lemma chain_reveals_append: "chain_reveals (xs @ ys) = chain_reveals xs @ chain_reveals ys"
  by (induction xs rule: chain_reveals.induct) simp_all

lemma Person_Register_twice:
  assumes contract: "ledger_contract E"
      and new: "NewPerson E (Some a) = Inr person"
      and fresh: "\<not> factom_ChainExists E tr (person_chainID person)"
      and first: "Person_Register E person ec tr = (Inr (txID, None), tr')"
  shows "txID \<noteq> [] \<and>
         tr' = tr @ [Call_ChainExists (person_chainID person),
                     Call_CommitChain (Person_chain E a) ec,
                     Call_RevealChain (Person_chain E a)] \<and>
         Person_Register E person ec' (tr' @ later) =
           (Inr ([], None), tr' @ later @ [Call_ChainExists (person_chainID person)])"
proof -
  let ?c = "Person_chain E a"
  let ?tr1 = "tr @ [Call_ChainExists (person_chainID person)]"
  note f = NewPerson_fields [OF new]
  from first obtain t where
    commit: "factom_CommitChain E ?tr1 ?c ec = Inr txID" and
    reveal: "factom_RevealChain E (?tr1 @ [Call_CommitChain ?c ec]) ?c = Inr t" and
    tr': "tr' = ?tr1 @ [Call_CommitChain ?c ec, Call_RevealChain ?c]"
    unfolding Person_Register_unregistered [OF fresh conjunct2 [OF f]]
    by (auto simp add: Let_def split: sum.splits)
  from contract commit have "txID \<noteq> []"
    unfolding ledger_contract_def by blast
  moreover from contract reveal
  have "factom_ChainExists E ((?tr1 @ [Call_CommitChain ?c ec]) @ Call_RevealChain ?c # later)
          (chain_ChainID ?c)"
    unfolding ledger_contract_def by blast
  then have "factom_ChainExists E (tr' @ later) (person_chainID person)"
    using f tr' by simp
  then have "Person_Register E person ec' (tr' @ later) =
           (Inr ([], None), tr' @ later @ [Call_ChainExists (person_chainID person)])"
    by (simp add: Person_Register_registered)
  ultimately show ?thesis using tr' by simp
qed

lemma Vehicle_Register_twice:
  assumes contract: "ledger_contract E"
      and new: "NewVehicle E v = Some vehicle"
      and fresh: "\<not> factom_ChainExists E tr (vehicle_chainID vehicle)"
      and first: "Vehicle_Register E vehicle ec tr = (Inr (txID, None), tr')"
  shows "txID \<noteq> [] \<and>
         tr' = tr @ [Call_ChainExists (vehicle_chainID vehicle),
                     Call_CommitChain (Vehicle_chain E v) ec,
                     Call_RevealChain (Vehicle_chain E v)] \<and>
         Vehicle_Register E vehicle ec' (tr' @ later) =
           (Inr ([], None), tr' @ later @ [Call_ChainExists (vehicle_chainID vehicle)])"
proof -
  let ?c = "Vehicle_chain E v"
  let ?tr1 = "tr @ [Call_ChainExists (vehicle_chainID vehicle)]"
  note f = NewVehicle_fields [OF new]
  from first obtain t where
    commit: "factom_CommitChain E ?tr1 ?c ec = Inr txID" and
    reveal: "factom_RevealChain E (?tr1 @ [Call_CommitChain ?c ec]) ?c = Inr t" and
    tr': "tr' = ?tr1 @ [Call_CommitChain ?c ec, Call_RevealChain ?c]"
    unfolding Vehicle_Register_unregistered [OF fresh] conjunct2 [OF f]
    by (auto simp add: Let_def split: sum.splits)
  from contract commit have "txID \<noteq> []"
    unfolding ledger_contract_def by blast
  moreover from contract reveal
  have "factom_ChainExists E ((?tr1 @ [Call_CommitChain ?c ec]) @ Call_RevealChain ?c # later)
          (chain_ChainID ?c)"
    unfolding ledger_contract_def by blast
  then have "factom_ChainExists E (tr' @ later) (vehicle_chainID vehicle)"
    using f tr' by simp
  then have "Vehicle_Register E vehicle ec' (tr' @ later) =
           (Inr ([], None), tr' @ later @ [Call_ChainExists (vehicle_chainID vehicle)])"
    by (simp add: Vehicle_Register_registered)
  ultimately show ?thesis using tr' by simp
qed


lemma sim_ledger_contract: "ledger_contract (sim_env files)"
  by (simp add: ledger_contract_def sim_env_def chain_reveals_append)

text \<open>
  Claim C3. When the chain of a person or of a vehicle exists on the ledger, \<open>Register\<close>
  returns the empty transaction ID and no error, and its only call is the existence
  probe: nothing is submitted. For an entity made by \<open>NewPerson\<close> or \<open>NewVehicle\<close>, on a
  ledger that answers a successful commit with a non-empty transaction ID and on which a
  revealed chain exists from then on: when the chain does not exist and a first
  \<open>Register\<close> returns without error, its transaction ID is not empty, it has made one
  commit and one reveal of the entity's chain, and any later \<open>Register\<close> returns the
  empty transaction ID and no error after the probe alone, so that the two calls together
  have submitted one chain creation.
\<close>

theorem Register_idempotent:
  "(factom_ChainExists E tr (person_chainID person) \<longrightarrow>
      Person_Register E person ec tr =
        (Inr ([], None), tr @ [Call_ChainExists (person_chainID person)])) \<and>
   (factom_ChainExists E tr (vehicle_chainID vehicle) \<longrightarrow>
      Vehicle_Register E vehicle ec tr =
        (Inr ([], None), tr @ [Call_ChainExists (vehicle_chainID vehicle)])) \<and>
   (ledger_contract E \<and> NewPerson E (Some a) = Inr p \<and>
    \<not> factom_ChainExists E tr (person_chainID p) \<and>
    Person_Register E p ec tr = (Inr (txID, None), tr') \<longrightarrow>
      txID \<noteq> [] \<and>
      tr' = tr @ [Call_ChainExists (person_chainID p), Call_CommitChain (Person_chain E a) ec,
                  Call_RevealChain (Person_chain E a)] \<and>
      Person_Register E p ec' (tr' @ later) =
        (Inr ([], None), tr' @ later @ [Call_ChainExists (person_chainID p)]) \<and>
      chain_commits (snd (Person_Register E p ec' (tr' @ later))) =
        chain_commits tr @ [Person_chain E a] @ chain_commits later) \<and>
   (ledger_contract E \<and> NewVehicle E v = Some w \<and>
    \<not> factom_ChainExists E tr (vehicle_chainID w) \<and>
    Vehicle_Register E w ec tr = (Inr (txID, None), tr') \<longrightarrow>
      txID \<noteq> [] \<and>
      tr' = tr @ [Call_ChainExists (vehicle_chainID w), Call_CommitChain (Vehicle_chain E v) ec,
                  Call_RevealChain (Vehicle_chain E v)] \<and>
      Vehicle_Register E w ec' (tr' @ later) =
        (Inr ([], None), tr' @ later @ [Call_ChainExists (vehicle_chainID w)]) \<and>
      chain_commits (snd (Vehicle_Register E w ec' (tr' @ later))) =
        chain_commits tr @ [Vehicle_chain E v] @ chain_commits later)"
proof -
  have P: "txID \<noteq> [] \<and>
      tr' = tr @ [Call_ChainExists (person_chainID p), Call_CommitChain (Person_chain E a) ec,
                  Call_RevealChain (Person_chain E a)] \<and>
      Person_Register E p ec' (tr' @ later) =
        (Inr ([], None), tr' @ later @ [Call_ChainExists (person_chainID p)]) \<and>
      chain_commits (snd (Person_Register E p ec' (tr' @ later))) =
        chain_commits tr @ [Person_chain E a] @ chain_commits later"
    if "ledger_contract E" "NewPerson E (Some a) = Inr p"
       "\<not> factom_ChainExists E tr (person_chainID p)"
       "Person_Register E p ec tr = (Inr (txID, None), tr')"
    using Person_Register_twice [OF that, of ec' later]
    by (auto simp add: chain_commits_append)
  have V: "txID \<noteq> [] \<and>
      tr' = tr @ [Call_ChainExists (vehicle_chainID w), Call_CommitChain (Vehicle_chain E v) ec,
                  Call_RevealChain (Vehicle_chain E v)] \<and>
      Vehicle_Register E w ec' (tr' @ later) =
        (Inr ([], None), tr' @ later @ [Call_ChainExists (vehicle_chainID w)]) \<and>
      chain_commits (snd (Vehicle_Register E w ec' (tr' @ later))) =
        chain_commits tr @ [Vehicle_chain E v] @ chain_commits later"
    if "ledger_contract E" "NewVehicle E v = Some w"
       "\<not> factom_ChainExists E tr (vehicle_chainID w)"
       "Vehicle_Register E w ec tr = (Inr (txID, None), tr')"
    using Vehicle_Register_twice [OF that, of ec' later]
    by (auto simp add: chain_commits_append)
  from P V show ?thesis
    using Person_Register_registered [of E tr person ec]
      Vehicle_Register_registered [of E tr vehicle ec]
    by blast
qed

text \<open>
  On the reference ledger, registering a new person and a new vehicle twice gives a
  transaction ID and then the empty one, with a single chain submitted.
\<close>

theorem Register_idempotent_witness:
  "ledger_contract (sim_env Map.empty) \<and>
   (\<exists>p. NewPerson (sim_env Map.empty) (Some sim_address) = Inr p \<and>
      fst (Person_Register (sim_env Map.empty) p sim_address []) =
        Inr (''commit-chain'', None) \<and>
      fst (Person_Register (sim_env Map.empty) p sim_address
             (snd (Person_Register (sim_env Map.empty) p sim_address []))) = Inr ([], None) \<and>
      chain_commits (snd (Person_Register (sim_env Map.empty) p sim_address
             (snd (Person_Register (sim_env Map.empty) p sim_address [])))) =
        [Person_chain (sim_env Map.empty) sim_address]) \<and>
   (\<exists>w. NewVehicle (sim_env Map.empty) ''1234567890ABCDEFH'' = Some w \<and>
      fst (Vehicle_Register (sim_env Map.empty) w sim_address []) =
        Inr (''commit-chain'', None) \<and>
      fst (Vehicle_Register (sim_env Map.empty) w sim_address
             (snd (Vehicle_Register (sim_env Map.empty) w sim_address []))) = Inr ([], None))"
proof -
  let ?E = "sim_env Map.empty"
  define p where
    "p = Person (Some sim_address)
           (constructChainID ?E [bytes_of ''Driver Identity Chain'', PubBytes sim_address]) [] []"
  define w where
    "w = Vehicle ''1234567890ABCDEFH''
           (constructChainID ?E [bytes_of ''Vehicle Identity Chain'', bytes_of ''1234567890ABCDEFH''])
           None []"
  have newp: "NewPerson ?E (Some sim_address) = Inr p"
    by (simp add: NewPerson_def p_def)
  have neww: "NewVehicle ?E ''1234567890ABCDEFH'' = Some w"
    by (simp add: NewVehicle_def w_def)
  have fresh: "\<not> factom_ChainExists ?E [] c" for c
    by (simp add: sim_env_def)
  have ok: "factom_CommitChain ?E t c ec = Inr ''commit-chain''"
           "factom_RevealChain ?E t c = Inr ''reveal-chain''" for t c ec
    by (simp_all add: sim_env_def)
  have firstp: "Person_Register ?E p sim_address [] =
      (Inr (''commit-chain'', None),
       [Call_ChainExists (person_chainID p), Call_CommitChain (Person_chain ?E sim_address) sim_address,
        Call_RevealChain (Person_chain ?E sim_address)])"
    using Person_Register_unregistered [OF fresh, of p sim_address sim_address]
    by (simp add: ok Let_def p_def)
  have firstw: "Vehicle_Register ?E w sim_address [] =
      (Inr (''commit-chain'', None),
       [Call_ChainExists (vehicle_chainID w),
        Call_CommitChain (Vehicle_chain ?E ''1234567890ABCDEFH'') sim_address,
        Call_RevealChain (Vehicle_chain ?E ''1234567890ABCDEFH'')])"
    using Vehicle_Register_unregistered [OF fresh, of w sim_address]
    by (simp add: ok Let_def w_def)
  note T = Register_idempotent
             [where E = ?E and tr = "[]" and a = sim_address and p = p and ec = sim_address
                and ec' = sim_address and later = "[]" and txID = "''commit-chain''"
                and v = "''1234567890ABCDEFH''" and w = w]
  from T sim_ledger_contract newp fresh firstp
  have 1: "fst (Person_Register ?E p sim_address (snd (Person_Register ?E p sim_address []))) =
             Inr ([], None)"
    and 2: "chain_commits (snd (Person_Register ?E p sim_address
              (snd (Person_Register ?E p sim_address [])))) = [Person_chain ?E sim_address]"
    by simp_all
  from T sim_ledger_contract neww fresh firstw
  have 3: "fst (Vehicle_Register ?E w sim_address (snd (Vehicle_Register ?E w sim_address []))) =
             Inr ([], None)"
    by simp
  from newp firstp 1 2 neww firstw 3 sim_ledger_contract show ?thesis
    by auto
qed

text \<open>
  Claim C7. In \<open>Person.Register\<close>, \<open>Vehicle.Register\<close> and \<open>secureHashOnChain\<close>, when the
  commit fails the function returns the empty transaction ID with the very error of the
  commit, having made that one commit and no reveal; when the commit succeeds and the
  reveal fails it returns the empty transaction ID with the very error of the reveal,
  having made one commit and one reveal. No call is made a second time.
\<close>

theorem submission_failure_surfaced:
  "(\<not> factom_ChainExists E tr (person_chainID person) \<and> ecAddress person = Some a \<and>
    factom_CommitChain E (tr @ [Call_ChainExists (person_chainID person)]) (Person_chain E a) ec
      = Inl err \<longrightarrow>
      Person_Register E person ec tr =
        (Inr ([], Some err),
         tr @ [Call_ChainExists (person_chainID person), Call_CommitChain (Person_chain E a) ec])) \<and>
   (\<not> factom_ChainExists E tr (person_chainID person) \<and> ecAddress person = Some a \<and>
    factom_CommitChain E (tr @ [Call_ChainExists (person_chainID person)]) (Person_chain E a) ec
      = Inr txID \<and>
    factom_RevealChain E
      (tr @ [Call_ChainExists (person_chainID person), Call_CommitChain (Person_chain E a) ec])
      (Person_chain E a) = Inl err \<longrightarrow>
      Person_Register E person ec tr =
        (Inr ([], Some err),
         tr @ [Call_ChainExists (person_chainID person), Call_CommitChain (Person_chain E a) ec,
               Call_RevealChain (Person_chain E a)])) \<and>
   (\<not> factom_ChainExists E tr (vehicle_chainID vehicle) \<and>
    factom_CommitChain E (tr @ [Call_ChainExists (vehicle_chainID vehicle)])
      (Vehicle_chain E (vin vehicle)) ec = Inl err \<longrightarrow>
      Vehicle_Register E vehicle ec tr =
        (Inr ([], Some err),
         tr @ [Call_ChainExists (vehicle_chainID vehicle),
               Call_CommitChain (Vehicle_chain E (vin vehicle)) ec])) \<and>
   (\<not> factom_ChainExists E tr (vehicle_chainID vehicle) \<and>
    factom_CommitChain E (tr @ [Call_ChainExists (vehicle_chainID vehicle)])
      (Vehicle_chain E (vin vehicle)) ec = Inr txID \<and>
    factom_RevealChain E
      (tr @ [Call_ChainExists (vehicle_chainID vehicle),
             Call_CommitChain (Vehicle_chain E (vin vehicle)) ec])
      (Vehicle_chain E (vin vehicle)) = Inl err \<longrightarrow>
      Vehicle_Register E vehicle ec tr =
        (Inr ([], Some err),
         tr @ [Call_ChainExists (vehicle_chainID vehicle),
               Call_CommitChain (Vehicle_chain E (vin vehicle)) ec,
               Call_RevealChain (Vehicle_chain E (vin vehicle))])) \<and>
   (owner_ecAddress vehicle = Inr a \<and>
    factom_CommitEntry E tr (anchor_entry E vehicle a hash) a = Inl err \<longrightarrow>
      secureHashOnChain E vehicle hash tr =
        (Inr ([], Some err), tr @ [Call_CommitEntry (anchor_entry E vehicle a hash) a])) \<and>
   (owner_ecAddress vehicle = Inr a \<and>
    factom_CommitEntry E tr (anchor_entry E vehicle a hash) a = Inr txID \<and>
    factom_RevealEntry E (tr @ [Call_CommitEntry (anchor_entry E vehicle a hash) a])
      (anchor_entry E vehicle a hash) = Inl err \<longrightarrow>
      secureHashOnChain E vehicle hash tr =
        (Inr ([], Some err),
         tr @ [Call_CommitEntry (anchor_entry E vehicle a hash) a,
               Call_RevealEntry (anchor_entry E vehicle a hash)]))"
proof -
  have p1: "\<not> factom_ChainExists E tr (person_chainID person) \<and> ecAddress person = Some a \<and>
    factom_CommitChain E (tr @ [Call_ChainExists (person_chainID person)]) (Person_chain E a) ec
      = Inl err \<longrightarrow>
      Person_Register E person ec tr =
        (Inr ([], Some err),
         tr @ [Call_ChainExists (person_chainID person), Call_CommitChain (Person_chain E a) ec])"
    by (simp add: Person_Register_unregistered Let_def)
  have p2: "\<not> factom_ChainExists E tr (person_chainID person) \<and> ecAddress person = Some a \<and>
    factom_CommitChain E (tr @ [Call_ChainExists (person_chainID person)]) (Person_chain E a) ec
      = Inr txID \<and>
    factom_RevealChain E
      (tr @ [Call_ChainExists (person_chainID person), Call_CommitChain (Person_chain E a) ec])
      (Person_chain E a) = Inl err \<longrightarrow>
      Person_Register E person ec tr =
        (Inr ([], Some err),
         tr @ [Call_ChainExists (person_chainID person), Call_CommitChain (Person_chain E a) ec,
               Call_RevealChain (Person_chain E a)])"
    by (simp add: Person_Register_unregistered Let_def)
  have v1: "\<not> factom_ChainExists E tr (vehicle_chainID vehicle) \<and>
    factom_CommitChain E (tr @ [Call_ChainExists (vehicle_chainID vehicle)])
      (Vehicle_chain E (vin vehicle)) ec = Inl err \<longrightarrow>
      Vehicle_Register E vehicle ec tr =
        (Inr ([], Some err),
         tr @ [Call_ChainExists (vehicle_chainID vehicle),
               Call_CommitChain (Vehicle_chain E (vin vehicle)) ec])"
    by (simp add: Vehicle_Register_unregistered Let_def)
  have v2: "\<not> factom_ChainExists E tr (vehicle_chainID vehicle) \<and>
    factom_CommitChain E (tr @ [Call_ChainExists (vehicle_chainID vehicle)])
      (Vehicle_chain E (vin vehicle)) ec = Inr txID \<and>
    factom_RevealChain E
      (tr @ [Call_ChainExists (vehicle_chainID vehicle),
             Call_CommitChain (Vehicle_chain E (vin vehicle)) ec])
      (Vehicle_chain E (vin vehicle)) = Inl err \<longrightarrow>
      Vehicle_Register E vehicle ec tr =
        (Inr ([], Some err),
         tr @ [Call_ChainExists (vehicle_chainID vehicle),
               Call_CommitChain (Vehicle_chain E (vin vehicle)) ec,
               Call_RevealChain (Vehicle_chain E (vin vehicle))])"
    by (simp add: Vehicle_Register_unregistered Let_def)
  have s1: "owner_ecAddress vehicle = Inr a \<and>
    factom_CommitEntry E tr (anchor_entry E vehicle a hash) a = Inl err \<longrightarrow>
      secureHashOnChain E vehicle hash tr =
        (Inr ([], Some err), tr @ [Call_CommitEntry (anchor_entry E vehicle a hash) a])"
    by (simp add: secureHashOnChain_result Let_def)
  have s2: "owner_ecAddress vehicle = Inr a \<and>
    factom_CommitEntry E tr (anchor_entry E vehicle a hash) a = Inr txID \<and>
    factom_RevealEntry E (tr @ [Call_CommitEntry (anchor_entry E vehicle a hash) a])
      (anchor_entry E vehicle a hash) = Inl err \<longrightarrow>
      secureHashOnChain E vehicle hash tr =
        (Inr ([], Some err),
         tr @ [Call_CommitEntry (anchor_entry E vehicle a hash) a,
               Call_RevealEntry (anchor_entry E vehicle a hash)])"
    by (simp add: secureHashOnChain_result Let_def)
  from p1 p2 v1 v2 s1 s2 show ?thesis by blast
qed


text \<open>
  The three functions on a ledger that refuses every commit, and on one that refuses
  every reveal.
\<close>

theorem submission_failure_surfaced_witness:
  "Person_Register sim_env_commit_fails sim_person sim_address [] =
     (Inr ([], Some (Error ''commit refused'')),
      [Call_ChainExists ''driver-chain'',
       Call_CommitChain (Person_chain sim_env_commit_fails sim_address) sim_address]) \<and>
   Person_Register sim_env_reveal_fails sim_person sim_address [] =
     (Inr ([], Some (Error ''reveal refused'')),
      [Call_ChainExists ''driver-chain'',
       Call_CommitChain (Person_chain sim_env_reveal_fails sim_address) sim_address,
       Call_RevealChain (Person_chain sim_env_reveal_fails sim_address)]) \<and>
   fst (Vehicle_Register sim_env_commit_fails sim_vehicle sim_address []) =
     Inr ([], Some (Error ''commit refused'')) \<and>
   fst (Vehicle_Register sim_env_reveal_fails sim_vehicle sim_address []) =
     Inr ([], Some (Error ''reveal refused'')) \<and>
   fst (secureHashOnChain sim_env_commit_fails sim_vehicle (sha256_Sum sim_file) []) =
     Inr ([], Some (Error ''commit refused'')) \<and>
   secureHashOnChain sim_env_reveal_fails sim_vehicle (sha256_Sum sim_file) [] =
     (Inr ([], Some (Error ''reveal refused'')),
      [Call_CommitEntry (anchor_entry sim_env_reveal_fails sim_vehicle sim_address
         (sha256_Sum sim_file)) sim_address,
       Call_RevealEntry (anchor_entry sim_env_reveal_fails sim_vehicle sim_address
         (sha256_Sum sim_file))])"
proof -
  let ?C = sim_env_commit_fails
  let ?R = sim_env_reveal_fails
  have new: "\<not> factom_ChainExists ?C [] c" "\<not> factom_ChainExists ?R [] c" for c
    by (simp_all add: sim_env_commit_fails_def sim_env_reveal_fails_def sim_env_def)
  have addr: "ecAddress sim_person = Some sim_address"
    by (simp add: sim_person_def)
  have c: "factom_CommitChain ?C t ch ec = Inl (Error ''commit refused'')"
          "factom_CommitEntry ?C t e ec = Inl (Error ''commit refused'')"
          "factom_CommitChain ?R t ch ec = Inr ''commit-chain''"
          "factom_CommitEntry ?R t e ec = Inr ''commit-entry''" for t ch e ec
    by (simp_all add: sim_env_commit_fails_def sim_env_reveal_fails_def sim_env_def)
  have r: "factom_RevealChain ?R t ch = Inl (Error ''reveal refused'')"
          "factom_RevealEntry ?R t e = Inl (Error ''reveal refused'')" for t ch e
    by (simp_all add: sim_env_reveal_fails_def)
  note T1 = submission_failure_surfaced
              [where E = ?C and tr = "[]" and person = sim_person and a = sim_address
                 and ec = sim_address and vehicle = sim_vehicle
                 and hash = "sha256_Sum sim_file" and err = "Error ''commit refused''"]
  note T2 = submission_failure_surfaced
              [where E = ?R and tr = "[]" and person = sim_person and a = sim_address
                 and ec = sim_address and vehicle = sim_vehicle
                 and hash = "sha256_Sum sim_file" and err = "Error ''reveal refused''"]
  from T1 new addr c sim_owner
  have 1: "Person_Register ?C sim_person sim_address [] =
     (Inr ([], Some (Error ''commit refused'')),
      [Call_ChainExists ''driver-chain'', Call_CommitChain (Person_chain ?C sim_address) sim_address])"
    and 3: "fst (Vehicle_Register ?C sim_vehicle sim_address []) =
     Inr ([], Some (Error ''commit refused''))"
    and 5: "fst (secureHashOnChain ?C sim_vehicle (sha256_Sum sim_file) []) =
     Inr ([], Some (Error ''commit refused''))"
    by (simp_all add: sim_person_def)
  from T2 [where txID = "''commit-chain''"] new addr c r
  have 2: "Person_Register ?R sim_person sim_address [] =
     (Inr ([], Some (Error ''reveal refused'')),
      [Call_ChainExists ''driver-chain'',
       Call_CommitChain (Person_chain ?R sim_address) sim_address,
       Call_RevealChain (Person_chain ?R sim_address)])"
    and 4: "fst (Vehicle_Register ?R sim_vehicle sim_address []) =
     Inr ([], Some (Error ''reveal refused''))"
    by (simp_all add: sim_person_def)
  from T2 [where txID = "''commit-entry''"] c r sim_owner
  have 6: "secureHashOnChain ?R sim_vehicle (sha256_Sum sim_file) [] =
     (Inr ([], Some (Error ''reveal refused'')),
      [Call_CommitEntry (anchor_entry ?R sim_vehicle sim_address (sha256_Sum sim_file)) sim_address,
       Call_RevealEntry (anchor_entry ?R sim_vehicle sim_address (sha256_Sum sim_file))])"
    by simp
  from 1 2 3 4 5 6 show ?thesis by blast
qed

text \<open>
  Claim C2. Let the vehicle have an owner with an address whose key pair signs the
  fingerprint correctly. The fingerprint of a file is taken with \<open>getFileHash\<close> and
  anchored with \<open>secureHashOnChain\<close>; the record it commits has the signature of the
  fingerprint and the owner's public key as metadata and the fingerprint as content.
  When the ledger later returns a history holding that record and the file still has the
  same bytes, \<open>VerifyData\<close> returns \<open>(true, nil)\<close>.
\<close>

theorem anchor_then_verify:
  assumes own: "owner_ecAddress vehicle = Inr a"
      and hashed: "ioutil_ReadFile E tr0 filepath = Inr file"
                  "getFileHash E filepath tr0 = ((hash, None), tr1)"
      and law: "signs_correctly E a hash"
      and anchored: "snd (secureHashOnChain E vehicle hash tr1) =
                       tr1 @ Call_CommitEntry entry payer # rest"
      and fetched: "factom_GetAllChainEntries E tr (vehicle_chainID vehicle) = Inr entries"
      and present: "entry \<in> set entries"
      and unchanged:
            "ioutil_ReadFile E (tr @ [Call_GetAllChainEntries (vehicle_chainID vehicle)]) filepath
               = Inr file"
  shows "entry = anchor_entry E vehicle a hash \<and>
         ExtIDs entry = [ed_Sign E (Sec a) hash, PubBytes a] \<and> Content entry = hash \<and>
         VerifyData E vehicle filepath tr =
           (Inr (True, None),
            tr @ [Call_GetAllChainEntries (vehicle_chainID vehicle), Call_ReadFile filepath])"
proof -
  from hashed have hash: "hash = sha256_Sum file"
    by (simp add: getFileHash_def ReadFile_def)
  from anchored have entry: "entry = anchor_entry E vehicle a hash"
    unfolding secureHashOnChain_result [OF own]
    by (auto simp add: Let_def split: sum.splits)
  from law have "entry_matches E a (sha256_Sum file) entry"
    by (simp add: entry entry_matches_def anchor_entry_def signs_correctly_def hash
          signature_of_id PubFixed_def)
  with present have "\<exists>e \<in> set entries. entry_matches E a (sha256_Sum file) e"
    by blast
  then have "VerifyData E vehicle filepath tr =
           (Inr (True, None),
            tr @ [Call_GetAllChainEntries (vehicle_chainID vehicle), Call_ReadFile filepath])"
    by (simp add: VerifyData_result [OF own fetched unchanged])
  with entry show ?thesis
    by (simp add: anchor_entry_def)
qed

text \<open>
  On the reference ledger: the fingerprint of the file is anchored, and the file is then
  verified against the chain as the ledger holds it.
\<close>

theorem anchor_then_verify_witness:
  "secureHashOnChain (sim_env [''obd.txt'' \<mapsto> sim_file]) sim_vehicle (sha256_Sum sim_file)
     [Call_ReadFile ''obd.txt''] =
     (Inr (''commit-entry'', None),
      [Call_ReadFile ''obd.txt'', Call_CommitEntry sim_good sim_address,
       Call_RevealEntry sim_good]) \<and>
   fst (VerifyData (sim_env [''obd.txt'' \<mapsto> sim_file]) sim_vehicle ''obd.txt''
     [Call_ReadFile ''obd.txt'', Call_CommitEntry sim_good sim_address,
      Call_RevealEntry sim_good]) = Inr (True, None)"
proof -
  let ?E = "sim_env [''obd.txt'' \<mapsto> sim_file]"
  let ?h = "sha256_Sum sim_file"
  let ?tr = "[Call_ReadFile ''obd.txt'', Call_CommitEntry sim_good sim_address,
              Call_RevealEntry sim_good]"
  have r: "ioutil_ReadFile ?E t ''obd.txt'' = Inr sim_file" for t
    by (simp add: sim_env_def)
  have h: "getFileHash ?E ''obd.txt'' [] = ((?h, None), [Call_ReadFile ''obd.txt''])"
    by (simp add: getFileHash_def ReadFile_def r)
  have law: "signs_correctly ?E sim_address ?h"
    by (simp add: signs_correctly_def sim_env_def toy_Sign_def toy_Verify_def
          length_signature_of signature_of_idem sim_address_def)
  have e: "anchor_entry ?E sim_vehicle sim_address ?h = sim_good"
    by (simp add: anchor_entry_def sim_good_def sim_vehicle_def sim_env_def PubBytes_def)
  have a: "secureHashOnChain ?E sim_vehicle ?h [Call_ReadFile ''obd.txt''] =
             (Inr (''commit-entry'', None), ?tr)"
    unfolding secureHashOnChain_result [OF sim_owner] e
    by (simp add: sim_env_def)
  then have a': "snd (secureHashOnChain ?E sim_vehicle ?h [Call_ReadFile ''obd.txt'']) =
             [Call_ReadFile ''obd.txt''] @ Call_CommitEntry sim_good sim_address
               # [Call_RevealEntry sim_good]"
    by simp
  have f: "factom_GetAllChainEntries ?E ?tr (vehicle_chainID sim_vehicle) = Inr [sim_good]"
    by (simp add: sim_env_def sim_vehicle_def sim_good_def)
  have m: "sim_good \<in> set [sim_good]"
    by simp
  from anchor_then_verify [OF sim_owner r h law a' f m r]
  have "fst (VerifyData ?E sim_vehicle ''obd.txt'' ?tr) = Inr (True, None)"
    by simp
  with a show ?thesis by simp
qed

end
